theory Spec2Isabelle
  imports Main "HOL-Library.Sublist"
begin

section \<open>Python values as the exporter sees them\<close>

text \<open>
  Every value the exporter handles comes out of \<^verbatim>\<open>json.loads\<close>: \<^verbatim>\<open>None\<close>, a bool, an
  int, a float, a str, a list or a dict with string keys. A dict is kept as the list of
  its entries in insertion order (the order \<^verbatim>\<open>for k in d\<close> visits them); a dict built
  by \<^verbatim>\<open>json.loads\<close> has no key twice, and \<open>map_of\<close> is the lookup.

  A character of a model string stands for one code point below 256, so that iterating a
  string, \<^verbatim>\<open>str.lower\<close> and \<^verbatim>\<open>str.replace\<close> act on the model as they do on the Python
  string; strings with other code points are outside the model.

  A float is kept as the text \<^verbatim>\<open>str\<close> gives for it (\<^verbatim>\<open>5.0\<close>, \<^verbatim>\<open>-0.0\<close>, \<^verbatim>\<open>1e+22\<close>):
  this program only prints floats and tests them against zero.
\<close>

datatype pyval =
    JNull
  | JBool bool
  | JInt int
  | JFloat string
  | JStr string
  | JList "pyval list"
  | JObj "(string \<times> pyval) list"

text \<open>
  The exceptions that can leave the exporter's methods. \<open>Exception\<close> carries the message
  of a bare \<^verbatim>\<open>raise Exception(msg)\<close>; \<open>KeyError\<close> carries the missing key.
\<close>

datatype error =
    Exception string
  | AttributeError
  | TypeError
  | KeyError string
  | FileNotFoundError
  | OSError
  | StopIteration

type_synonym 'a result = "error + 'a"

definition ebind :: "'a result \<Rightarrow> ('a \<Rightarrow> 'b result) \<Rightarrow> 'b result" where
  "ebind m f = (case m of Inl e \<Rightarrow> Inl e | Inr v \<Rightarrow> f v)"

text \<open>A comprehension \<^verbatim>\<open>[f(x) for x in xs]\<close>: left to right, the first exception ends it.\<close>

fun emap :: "('a \<Rightarrow> 'b result) \<Rightarrow> 'a list \<Rightarrow> 'b list result" where
  "emap f [] = Inr []"
| "emap f (x # xs) = ebind (f x) (\<lambda>y. ebind (emap f xs) (\<lambda>ys. Inr (y # ys)))"

text \<open>Truth value testing (\<^verbatim>\<open>if x\<close>, \<^verbatim>\<open>not x\<close>, \<^verbatim>\<open>x or y\<close>).\<close>

fun truthy :: "pyval \<Rightarrow> bool" where
  "truthy JNull = False"
| "truthy (JBool b) = b"
| "truthy (JInt i) = (i \<noteq> 0)"
| "truthy (JFloat s) = (s \<noteq> ''0.0'' \<and> s \<noteq> ''-0.0'')"
| "truthy (JStr s) = (s \<noteq> [])"
| "truthy (JList xs) = (xs \<noteq> [])"
| "truthy (JObj kvs) = (kvs \<noteq> [])"

text \<open>\<^verbatim>\<open>x.get(k, d)\<close>: only a dict has the method.\<close>

fun dict_get :: "pyval \<Rightarrow> string \<Rightarrow> pyval \<Rightarrow> pyval result" where
  "dict_get (JObj kvs) k d = Inr (case map_of kvs k of None \<Rightarrow> d | Some v \<Rightarrow> v)"
| "dict_get _ k d = Inl AttributeError"

text \<open>\<^verbatim>\<open>x[k]\<close> with a string key \<open>k\<close>: a missing key raises, anything but a dict rejects the key.\<close>

fun getitem :: "pyval \<Rightarrow> string \<Rightarrow> pyval result" where
  "getitem (JObj kvs) k = (case map_of kvs k of None \<Rightarrow> Inl (KeyError k) | Some v \<Rightarrow> Inr v)"
| "getitem _ k = Inl TypeError"

text \<open>The elements a \<^verbatim>\<open>for\<close> loop, a comprehension or \<^verbatim>\<open>list.extend\<close> draws from a value.\<close>

fun py_iter :: "pyval \<Rightarrow> pyval list result" where
  "py_iter (JList xs) = Inr xs"
| "py_iter (JStr s) = Inr (map (\<lambda>c. JStr [c]) s)"
| "py_iter (JObj kvs) = Inr (map (\<lambda>kv. JStr (fst kv)) kvs)"
| "py_iter _ = Inl TypeError"

text \<open>\<^verbatim>\<open>k in x\<close> for a string \<open>k\<close>: a key of a dict, an element of a list, a substring of a str.\<close>

fun py_contains :: "pyval \<Rightarrow> string \<Rightarrow> bool result" where
  "py_contains (JObj kvs) k = Inr (map_of kvs k \<noteq> None)"
| "py_contains (JList xs) k = Inr (JStr k \<in> set xs)"
| "py_contains (JStr s) k = Inr (sublist k s)"
| "py_contains _ k = Inl TypeError"

subsection \<open>Strings\<close>

definition digit_chr :: "nat \<Rightarrow> char" where
  "digit_chr d = ''0123456789'' ! d"

fun str_nat :: "nat \<Rightarrow> string" where
  "str_nat n = (if n < 10 then [digit_chr n] else str_nat (n div 10) @ [digit_chr (n mod 10)])"

declare str_nat.simps [simp del]

definition str_int :: "int \<Rightarrow> string" where
  "str_int i = (if i < 0 then CHR ''-'' # str_nat (nat (- i)) else str_nat (nat i))"

text \<open>
  \<^verbatim>\<open>str(x)\<close>, which is also what an f-string field \<^verbatim>\<open>{x}\<close> inserts. The text Python gives
  for a list or a dict (the \<^verbatim>\<open>repr\<close> of every element, with its quoting rules) is not
  reproduced: it is the parameter \<open>R\<close>.
\<close>

fun py_str :: "(pyval \<Rightarrow> string) \<Rightarrow> pyval \<Rightarrow> string" where
  "py_str R JNull = ''None''"
| "py_str R (JBool b) = (if b then ''True'' else ''False'')"
| "py_str R (JInt i) = str_int i"
| "py_str R (JFloat s) = s"
| "py_str R (JStr s) = s"
| "py_str R (JList xs) = R (JList xs)"
| "py_str R (JObj kvs) = R (JObj kvs)"

text \<open>\<^verbatim>\<open>str.lower\<close> on code points below 256: A-Z and the Latin-1 capitals move up by 32.\<close>

definition lower_chr :: "char \<Rightarrow> char" where
  "lower_chr c =
     (let n = (of_char c :: nat)
      in if (65 \<le> n \<and> n \<le> 90) \<or> (192 \<le> n \<and> n \<le> 222 \<and> n \<noteq> 215)
         then char_of (n + 32) else c)"

text \<open>\<^verbatim>\<open>x.lower()\<close>: only a str has the method.\<close>

fun str_lower :: "pyval \<Rightarrow> string result" where
  "str_lower (JStr s) = Inr (map lower_chr s)"
| "str_lower _ = Inl AttributeError"

text \<open>\<^verbatim>\<open>s.replace(old, new)\<close> for one-character \<open>old\<close> and \<open>new\<close>, the only use in the source.\<close>

definition replace_chr :: "char \<Rightarrow> char \<Rightarrow> string \<Rightarrow> string" where
  "replace_chr old new s = map (\<lambda>c. if c = old then new else c) s"

definition newline :: char where
  "newline = CHR 0x0A"

definition carriage_return :: char where
  "carriage_return = CHR 0x0D"

text \<open>\<^verbatim>\<open>body.replace('\n', ' ').replace('\r', ' ')\<close>: only a str has the method.\<close>

fun clean_newlines :: "pyval \<Rightarrow> pyval result" where
  "clean_newlines (JStr s) =
     Inr (JStr (replace_chr carriage_return CHR '' '' (replace_chr newline CHR '' '' s)))"
| "clean_newlines _ = Inl AttributeError"

section \<open>The Flattener: \<^verbatim>\<open>process_items_to_csv_rows\<close>\<close>

text \<open>
  The method reads its argument and nothing else (no file, no process, no attribute of
  \<^verbatim>\<open>self\<close>) and changes nothing but its own list of rows, so it is a function of the
  items alone; the only other parameter below is \<open>R\<close>, the text Python gives for lists
  and dicts.
\<close>

text \<open>
  \<^verbatim>\<open>
  labels = []
  if content.get("labels", {}).get("nodes"):
      labels = [label["name"] for label in content["labels"]["nodes"]]
  \<close>
\<close>

definition extract_labels :: "pyval \<Rightarrow> pyval list result" where
  "extract_labels content =
     ebind (dict_get content ''labels'' (JObj [])) (\<lambda>labels_obj.
     ebind (dict_get labels_obj ''nodes'' JNull) (\<lambda>nodes.
       if truthy nodes then
         ebind (getitem content ''labels'') (\<lambda>l.
         ebind (getitem l ''nodes'') (\<lambda>ns.
         ebind (py_iter ns) (\<lambda>label_nodes.
           emap (\<lambda>label. getitem label ''name'') label_nodes)))
       else Inr []))"

definition issue_type :: "pyval list \<Rightarrow> string" where
  "issue_type labels = (if JStr ''Epic'' \<in> set labels then ''Epic'' else ''Story'')"

text \<open>
  The loop over \<^verbatim>\<open>field_values\<close>. \<^verbatim>\<open>story_points\<close> starts as the empty string and the
  \<^verbatim>\<open>break\<close> sits in the \<^verbatim>\<open>case "story points"\<close> arm after the \<^verbatim>\<open>if\<close>/\<^verbatim>\<open>elif\<close>, so the
  first field whose lowered name matches ends the loop whether or not it set a value.
\<close>

fun story_points_loop :: "(pyval \<Rightarrow> string) \<Rightarrow> pyval list \<Rightarrow> pyval result" where
  "story_points_loop R [] = Inr (JStr [])"
| "story_points_loop R (field_value # rest) =
     ebind (dict_get field_value ''field'' (JObj [])) (\<lambda>field_info.
     ebind (dict_get field_info ''name'' (JStr [])) (\<lambda>field_name.
     ebind (str_lower field_name) (\<lambda>lowered.
       if lowered = ''story points'' then
         ebind (py_contains field_value ''number'') (\<lambda>has_number.
           if has_number then
             ebind (getitem field_value ''number'') (\<lambda>n. Inr (JStr (py_str R n)))
           else
             ebind (py_contains field_value ''text'') (\<lambda>has_text.
               if has_text then getitem field_value ''text'' else Inr (JStr [])))
       else story_points_loop R rest)))"

text \<open>
  \<^verbatim>\<open>
  story_points = ""
  field_values = item.get("fieldValues", {}).get("nodes", [])
  for field_value in field_values: ...
  \<close>
\<close>

definition extract_story_points :: "(pyval \<Rightarrow> string) \<Rightarrow> pyval \<Rightarrow> pyval result" where
  "extract_story_points R item =
     ebind (dict_get item ''fieldValues'' (JObj [])) (\<lambda>fv_obj.
     ebind (dict_get fv_obj ''nodes'' (JList [])) (\<lambda>field_values.
     ebind (py_iter field_values) (\<lambda>fvs. story_points_loop R fvs)))"

text \<open>\<^verbatim>\<open>f"[{story_points}] {title}" if story_points else title\<close>\<close>

definition format_title :: "(pyval \<Rightarrow> string) \<Rightarrow> pyval \<Rightarrow> pyval \<Rightarrow> pyval" where
  "format_title R story_points title =
     (if truthy story_points
      then JStr (''['' @ py_str R story_points @ ''] '' @ py_str R title)
      else title)"

text \<open>
  One pass of the loop body for one item: \<open>Inr None\<close> is the \<^verbatim>\<open>continue\<close>, \<open>Inr (Some row)\<close>
  the row that is appended. A cell is a Python value: on the items GitHub sends every
  cell is a str, but \<^verbatim>\<open>title\<close> and \<^verbatim>\<open>url\<close> go into the row as they were found.
\<close>

definition item_row :: "(pyval \<Rightarrow> string) \<Rightarrow> pyval \<Rightarrow> pyval list option result" where
  "item_row R item =
     ebind (dict_get item ''content'' JNull) (\<lambda>content.
       if \<not> truthy content then Inr None
       else
         ebind (dict_get content ''number'' (JStr [])) (\<lambda>number.
         ebind (dict_get content ''title'' (JStr [])) (\<lambda>title.
         ebind (dict_get content ''body'' JNull) (\<lambda>body0.
         let body = (if truthy body0 then body0 else JStr []) in
         ebind (dict_get content ''url'' (JStr [])) (\<lambda>url.
         ebind (extract_labels content) (\<lambda>labels.
         ebind (extract_story_points R item) (\<lambda>story_points.
         ebind (clean_newlines body) (\<lambda>description.
           Inr (Some [JStr (issue_type labels),
                      format_title R story_points title,
                      JStr (py_str R number),
                      url,
                      description,
                      JStr []])))))))))"

text \<open>The \<^verbatim>\<open>for item in items\<close> loop, with \<^verbatim>\<open>csv_rows\<close> as the accumulator.\<close>

fun rows_loop :: "(pyval \<Rightarrow> string) \<Rightarrow> pyval list \<Rightarrow> pyval list list \<Rightarrow> pyval list list result" where
  "rows_loop R [] csv_rows = Inr csv_rows"
| "rows_loop R (item # items) csv_rows =
     (case item_row R item of
        Inl e \<Rightarrow> Inl e
      | Inr None \<Rightarrow> rows_loop R items csv_rows
      | Inr (Some csv_row) \<Rightarrow> rows_loop R items (csv_rows @ [csv_row]))"

definition process_items_to_csv_rows :: "(pyval \<Rightarrow> string) \<Rightarrow> pyval list \<Rightarrow> pyval list list result" where
  "process_items_to_csv_rows R items = rows_loop R items []"

section \<open>The Paginator: \<^verbatim>\<open>get_all_project_items\<close>\<close>

text \<open>The lines of the query document between the two \<^verbatim>\<open>"""\<close>, indentation included.\<close>

definition query_lines :: "string list" where
  "query_lines =
    [
     ''            query($org: String!, $number: Int!, $cursor: String) {'',
     ''              organization(login: $org) {'',
     ''                projectV2(number: $number) {'',
     ''                  items(first: 100, after: $cursor) {'',
     ''                    pageInfo {'',
     ''                      hasNextPage'',
     ''                      endCursor'',
     ''                    }'',
     ''                    nodes {'',
     ''                      id'',
     ''                      fieldValues(first: 20) {'',
     ''                        nodes {'',
     ''                          ... on ProjectV2ItemFieldTextValue {'',
     ''                            text'',
     ''                            field {'',
     ''                              ... on ProjectV2FieldCommon {'',
     ''                                name'',
     ''                              }'',
     ''                            }'',
     ''                          }'',
     ''                          ... on ProjectV2ItemFieldNumberValue {'',
     ''                            number'',
     ''                            field {'',
     ''                              ... on ProjectV2FieldCommon {'',
     ''                                name'',
     ''                              }'',
     ''                            }'',
     ''                          }'',
     ''                        }'',
     ''                      }'',
     ''                      content {'',
     ''                        ... on Issue {'',
     ''                          number'',
     ''                          title'',
     ''                          body'',
     ''                          url'',
     ''                          labels(first: 20) {'',
     ''                            nodes {'',
     ''                              name'',
     ''                            }'',
     ''                          }'',
     ''                        }'',
     ''                        ... on PullRequest {'',
     ''                          number'',
     ''                          title'',
     ''                          body'',
     ''                          url'',
     ''                          labels(first: 20) {'',
     ''                            nodes {'',
     ''                              name'',
     ''                            }'',
     ''                          }'',
     ''                        }'',
     ''                      }'',
     ''                    }'',
     ''                  }'',
     ''                }'',
     ''              }'',
     ''            }''
    ]"

text \<open>
  The triple-quoted literal: a line break after the opening quotes, every line with its
  line break, and the indentation in front of the closing quotes.
\<close>

definition items_query :: string where
  "items_query =
     newline # concat (map (\<lambda>l. l @ [newline]) query_lines) @ replicate 12 CHR '' ''"

text \<open>\<^verbatim>\<open>{"org": org, "number": project_number, "cursor": cursor}\<close>\<close>

definition variables :: "string \<Rightarrow> int \<Rightarrow> pyval \<Rightarrow> pyval" where
  "variables org project_number cursor =
     JObj [(''org'', JStr org), (''number'', JInt project_number), (''cursor'', cursor)]"

text \<open>
  \<^verbatim>\<open>self._make_graphql_request\<close> as the Paginator sees it: a call with the query and
  the variables that returns the data or raises, and may change the world \<open>'s\<close> it
  talks to. A test replaces it by a mock.
\<close>

type_synonym 's transport = "string \<Rightarrow> pyval \<Rightarrow> 's \<Rightarrow> pyval result \<times> 's"

text \<open>
  What one pass of the loop reads from the data of a page, in the order of the source:
  \<^verbatim>\<open>data["organization"]["projectV2"]["items"]\<close>, the \<^verbatim>\<open>nodes\<close> that \<^verbatim>\<open>extend\<close> iterates,
  \<^verbatim>\<open>pageInfo.hasNextPage\<close>, and \<^verbatim>\<open>pageInfo.endCursor\<close> when there is a next page.
  The second component is the next cursor, \<open>None\<close> at the \<^verbatim>\<open>break\<close>.
\<close>

definition read_page :: "pyval \<Rightarrow> (pyval list \<times> pyval option) result" where
  "read_page data =
     ebind (getitem data ''organization'') (\<lambda>organization.
     ebind (getitem organization ''projectV2'') (\<lambda>project.
     ebind (getitem project ''items'') (\<lambda>project_data.
     ebind (getitem project_data ''nodes'') (\<lambda>nodes.
     ebind (py_iter nodes) (\<lambda>new_items.
     ebind (getitem project_data ''pageInfo'') (\<lambda>page_info.
     ebind (getitem page_info ''hasNextPage'') (\<lambda>has_next_page.
       if \<not> truthy has_next_page then Inr (new_items, None)
       else
         ebind (getitem project_data ''pageInfo'') (\<lambda>page_info'.
         ebind (getitem page_info' ''endCursor'') (\<lambda>end_cursor.
           Inr (new_items, Some end_cursor))))))))))"

text \<open>
  The \<^verbatim>\<open>while True\<close> loop. Nothing bounds it, so it is a partial function: \<open>None\<close> is
  the run that never returns, \<open>Some (Inl e, s)\<close> the run that raises \<open>e\<close>.
\<close>

partial_function (option) fetch_loop ::
  "'s transport \<Rightarrow> string \<Rightarrow> int \<Rightarrow> pyval \<Rightarrow> pyval list \<Rightarrow> 's \<Rightarrow> (pyval list result \<times> 's) option"
where
  "fetch_loop request org project_number cursor all_items s =
     (case request items_query (variables org project_number cursor) s of
        (Inl e, s') \<Rightarrow> Some (Inl e, s')
      | (Inr data, s') \<Rightarrow>
          (case read_page data of
             Inl e \<Rightarrow> Some (Inl e, s')
           | Inr (new_items, None) \<Rightarrow> Some (Inr (all_items @ new_items), s')
           | Inr (new_items, Some end_cursor) \<Rightarrow>
               fetch_loop request org project_number end_cursor (all_items @ new_items) s'))"

definition get_all_project_items ::
  "'s transport \<Rightarrow> string \<Rightarrow> int \<Rightarrow> 's \<Rightarrow> (pyval list result \<times> 's) option"
where
  "get_all_project_items request org project_number s =
     fetch_loop request org project_number JNull [] s"

subsection \<open>A mock transport\<close>

text \<open>
  A mock with a list of prepared outcomes (\<^verbatim>\<open>side_effect\<close>): each call records its
  arguments and hands out the next outcome, raising it when it is an exception, and
  raising \<^verbatim>\<open>StopIteration\<close> once the list is used up.
\<close>

record mock =
  responses :: "pyval result list"
  calls :: "(string \<times> pyval) list"

definition mock_request :: "mock transport" where
  "mock_request query vars m =
     (case responses m of
        [] \<Rightarrow> (Inl StopIteration, m\<lparr>calls := calls m @ [(query, vars)]\<rparr>)
      | r # rs \<Rightarrow> (r, \<lparr>responses = rs, calls = calls m @ [(query, vars)]\<rparr>))"

text \<open>The data of one page as the API returns it.\<close>

definition page_data :: "pyval list \<Rightarrow> bool \<Rightarrow> pyval \<Rightarrow> pyval" where
  "page_data nodes has_next end_cursor =
     JObj [(''organization'',
       JObj [(''projectV2'',
         JObj [(''items'',
           JObj [(''pageInfo'',
                   JObj [(''hasNextPage'', JBool has_next), (''endCursor'', end_cursor)]),
                 (''nodes'', JList nodes)])])])]"

text \<open>
  A run of pages, each given by its nodes and its end cursor: every page but the last
  announces a next page.
\<close>

fun paged_responses :: "(pyval list \<times> pyval) list \<Rightarrow> pyval result list" where
  "paged_responses [] = []"
| "paged_responses [(nodes, c)] = [Inr (page_data nodes False c)]"
| "paged_responses ((nodes, c) # p # ps) = Inr (page_data nodes True c) # paged_responses (p # ps)"

section \<open>The Transport Adapter\<close>

text \<open>
  The outcome of \<^verbatim>\<open>subprocess.run(..., capture_output=True, text=True)\<close>: the executable
  is not found, or the process exits with a return code, its output and its diagnostics.
\<close>

datatype proc_outcome = NotFound | Exited int string string

text \<open>An invocation: the argument vector and what is sent to standard input.\<close>

type_synonym invocation = "string list \<times> string option"

datatype out_line = Line string | ErrorLine error

text \<open>
  What a file holds: the rows handed to \<^verbatim>\<open>csv.writer\<close> (the CSV text itself is the
  writer's business), or what a write that broke off has left of them.
\<close>

datatype file_content = Rows "pyval list list" | Partial

text \<open>
  The world of one run: the invocations of the external tool so far, the files written
  and the lines printed (\<open>ErrorLine e\<close> for \<^verbatim>\<open>print(f"Error: {e}")\<close>).
\<close>

record world =
  history :: "invocation list"
  files :: "string \<rightharpoonup> file_content"
  console :: "out_line list"

text \<open>
  What the program takes from outside its own code: the external tool (its outcome given
  every invocation so far, the current one last), \<^verbatim>\<open>json.dumps\<close>, \<^verbatim>\<open>json.loads\<close>
  (\<open>Inl msg\<close> is a \<^verbatim>\<open>JSONDecodeError\<close> with that message), the text of lists and dicts,
  and the file system: the exception that \<^verbatim>\<open>open(path, 'w')\<close> raises for a path, if any,
  and the exception that breaks off the writing of given rows to a path, if any.
\<close>

record env =
  gh :: "invocation list \<Rightarrow> proc_outcome"
  json_dumps :: "pyval \<Rightarrow> string"
  json_loads :: "string \<Rightarrow> string + pyval"
  py_repr :: "pyval \<Rightarrow> string"
  open_error :: "string \<Rightarrow> error option"
  write_error :: "string \<Rightarrow> pyval list list \<Rightarrow> error option"

definition subprocess_run :: "env \<Rightarrow> string list \<Rightarrow> string option \<Rightarrow> world \<Rightarrow> proc_outcome \<times> world" where
  "subprocess_run E argv input w =
     (let h = history w @ [(argv, input)] in (gh E h, w\<lparr>history := h\<rparr>))"

definition print :: "out_line \<Rightarrow> world \<Rightarrow> world" where
  "print l w = w\<lparr>console := console w @ [l]\<rparr>"

definition msg_not_found :: string where
  "msg_not_found =
     ''GitHub CLI not found. Please install it:'' @ [newline] @
     ''  macOS: brew install gh'' @ [newline] @
     ''  Ubuntu/Debian: sudo apt install gh'' @ [newline] @
     ''  Windows: winget install GitHub.cli''"

definition msg_not_authenticated :: string where
  "msg_not_authenticated =
     ''GitHub CLI not authenticated. Please run:'' @ [newline] @ ''  gh auth login''"

definition verify_gh_auth :: "env \<Rightarrow> world \<Rightarrow> unit result \<times> world" where
  "verify_gh_auth E w =
     (case subprocess_run E [''gh'', ''auth'', ''status''] None w of
        (NotFound, w') \<Rightarrow> (Inl (Exception msg_not_found), w')
      | (Exited returncode out err, w') \<Rightarrow>
          if returncode \<noteq> 0 then (Inl (Exception msg_not_authenticated), w')
          else (Inr (), print (Line ''Using GitHub CLI authentication'') w'))"

text \<open>
  \<^verbatim>\<open>_make_graphql_request\<close>. \<^verbatim>\<open>check=True\<close> turns a non-zero return code into
  \<^verbatim>\<open>CalledProcessError\<close>, which the method catches together with \<^verbatim>\<open>JSONDecodeError\<close>;
  a missing executable, a response that is no container and a missing \<^verbatim>\<open>data\<close> key
  raise past it.
\<close>

definition parse_response :: "env \<Rightarrow> string \<Rightarrow> pyval result" where
  "parse_response E out =
     (case json_loads E out of
        Inl msg \<Rightarrow> Inl (Exception (''Failed to parse GraphQL response: '' @ msg))
      | Inr data \<Rightarrow>
          ebind (py_contains data ''errors'') (\<lambda>has_errors.
            if has_errors then
              ebind (getitem data ''errors'') (\<lambda>errs.
                Inl (Exception (''GraphQL errors: '' @ py_str (py_repr E) errs)))
            else getitem data ''data''))"

definition make_graphql_request :: "env \<Rightarrow> world transport" where
  "make_graphql_request E query vars w =
     (let payload = JObj [(''query'', JStr query), (''variables'', vars)] in
      case subprocess_run E [''gh'', ''api'', ''graphql'', ''--input'', ''-'']
             (Some (json_dumps E payload)) w of
        (NotFound, w') \<Rightarrow> (Inl FileNotFoundError, w')
      | (Exited returncode out err, w') \<Rightarrow>
          if returncode \<noteq> 0 then (Inl (Exception (''gh CLI request failed: '' @ err)), w')
          else (parse_response E out, w'))"

section \<open>The Orchestrator: \<^verbatim>\<open>export_to_csv\<close> and \<^verbatim>\<open>main\<close>\<close>

text \<open>
  \<^verbatim>\<open>open(output_file, 'w', ...)\<close> either raises and leaves the files as they are, or
  creates the file; \<^verbatim>\<open>writer.writerows(csv_rows)\<close> either breaks off with an exception and
  leaves a part of the text behind, or the file holds all rows.
\<close>

definition export_to_csv :: "env \<Rightarrow> string \<Rightarrow> int \<Rightarrow> string \<Rightarrow> world \<Rightarrow> (unit result \<times> world) option" where
  "export_to_csv E org project_number output_file w =
     (let w1 = print (Line (''Fetching project data for '' @ org @ ''/projects/'' @
                            str_int project_number @ ''...'')) w in
      case get_all_project_items (make_graphql_request E) org project_number w1 of
        None \<Rightarrow> None
      | Some (Inl e, w2) \<Rightarrow> Some (Inl e, w2)
      | Some (Inr items, w2) \<Rightarrow>
          (let w3 = print (Line (''Found '' @ str_nat (length items) @
                                 '' items in the project'')) w2 in
           case process_items_to_csv_rows (py_repr E) items of
             Inl e \<Rightarrow> Some (Inl e, w3)
           | Inr csv_rows \<Rightarrow>
               (let w4 = print (Line (''Processed '' @ str_nat (length csv_rows) @
                                      '' issues/PRs'')) w3
                in case open_error E output_file of
                     Some e \<Rightarrow> Some (Inl e, w4)
                   | None \<Rightarrow>
                       (case write_error E output_file csv_rows of
                          Some e \<Rightarrow>
                            Some (Inl e, w4\<lparr>files := (files w4)(output_file \<mapsto> Partial)\<rparr>)
                        | None \<Rightarrow>
                            (let w5 = w4\<lparr>files := (files w4)(output_file \<mapsto> Rows csv_rows)\<rparr>
                             in Some (Inr (), print (Line (''Exported to '' @ output_file)) w5))))))"

text \<open>\<^verbatim>\<open>main\<close> returns the exit status of the process: 0 at the end, 1 from \<^verbatim>\<open>sys.exit(1)\<close>.\<close>

definition main :: "env \<Rightarrow> world \<Rightarrow> (nat \<times> world) option" where
  "main E w =
     (case verify_gh_auth E w of
        (Inl e, w1) \<Rightarrow> Some (1, print (ErrorLine e) w1)
      | (Inr u, w1) \<Rightarrow>
          (case export_to_csv E ''conda'' 22 ''conda_project_issues.csv'' w1 of
             None \<Rightarrow> None
           | Some (Inl e, w2) \<Rightarrow> Some (1, print (ErrorLine e) w2)
           | Some (Inr u', w2) \<Rightarrow> Some (0, print (Line ''Export completed successfully!'') w2)))"

section \<open>Notions used to state the properties\<close>

subsection \<open>Reading an item\<close>

text \<open>An entry of a dict, with the default that \<^verbatim>\<open>.get\<close> is given.\<close>

definition entry :: "(string \<times> pyval) list \<Rightarrow> string \<Rightarrow> pyval \<Rightarrow> pyval" where
  "entry kvs k d = (case map_of kvs k of None \<Rightarrow> d | Some v \<Rightarrow> v)"

text \<open>\<^verbatim>\<open>content.get("body") or ""\<close>\<close>

definition body_of :: "(string \<times> pyval) list \<Rightarrow> pyval" where
  "body_of c = (if truthy (entry c ''body'' JNull) then entry c ''body'' JNull else JStr [])"

text \<open>The content of an item: the entries of its \<^verbatim>\<open>content\<close> mapping, none when there is no such mapping.\<close>

definition content_of :: "pyval \<Rightarrow> (string \<times> pyval) list" where
  "content_of item =
     (case item of
        JObj kvs \<Rightarrow> (case map_of kvs ''content'' of Some (JObj c) \<Rightarrow> c | _ \<Rightarrow> [])
      | _ \<Rightarrow> [])"

text \<open>The title of the content, the empty string when the entry is missing.\<close>

definition title_of :: "pyval \<Rightarrow> pyval" where
  "title_of item = entry (content_of item) ''title'' (JStr [])"

text \<open>The body of the content, the empty string when it is missing or not a string.\<close>

definition body_text :: "pyval \<Rightarrow> string" where
  "body_text item = (case map_of (content_of item) ''body'' of Some (JStr s) \<Rightarrow> s | _ \<Rightarrow> [])"

text \<open>Each line feed and each carriage return replaced by one space.\<close>

definition blank_line_breaks :: "string \<Rightarrow> string" where
  "blank_line_breaks s = map (\<lambda>c. if c = newline \<or> c = carriage_return then CHR '' '' else c) s"

text \<open>The name of a label node.\<close>

definition label_name :: "pyval \<Rightarrow> pyval option" where
  "label_name node = (case node of JObj d \<Rightarrow> map_of d ''name'' | _ \<Rightarrow> None)"

text \<open>The label set of an item: the names of the nodes under \<^verbatim>\<open>content.labels.nodes\<close>.\<close>

definition label_set :: "pyval \<Rightarrow> pyval set" where
  "label_set item =
     (case map_of (content_of item) ''labels'' of
        Some (JObj l) \<Rightarrow>
          (case map_of l ''nodes'' of
             Some (JList nodes) \<Rightarrow> set (List.map_filter label_name nodes)
           | _ \<Rightarrow> {})
      | _ \<Rightarrow> {})"

text \<open>The field values of an item: the nodes under \<^verbatim>\<open>fieldValues.nodes\<close>.\<close>

definition field_values :: "pyval \<Rightarrow> pyval list" where
  "field_values item =
     (case item of
        JObj kvs \<Rightarrow>
          (case map_of kvs ''fieldValues'' of
             Some (JObj f) \<Rightarrow> (case map_of f ''nodes'' of Some (JList fvs) \<Rightarrow> fvs | _ \<Rightarrow> [])
           | _ \<Rightarrow> [])
      | _ \<Rightarrow> [])"

text \<open>A field value whose field is named \<^verbatim>\<open>Story Points\<close> in any mix of upper and lower case.\<close>

definition names_story_points :: "pyval \<Rightarrow> bool" where
  "names_story_points field_value =
     (case field_value of
        JObj d \<Rightarrow>
          (case map_of d ''field'' of
             Some (JObj field_info) \<Rightarrow>
               (case map_of field_info ''name'' of
                  Some (JStr name) \<Rightarrow> map lower_chr name = ''story points''
                | _ \<Rightarrow> False)
           | _ \<Rightarrow> False)
      | _ \<Rightarrow> False)"

text \<open>
  What a field value carries: the text of its \<^verbatim>\<open>number\<close> entry when it has one, else its
  \<^verbatim>\<open>text\<close> entry, else the empty string.
\<close>

definition field_payload :: "(pyval \<Rightarrow> string) \<Rightarrow> pyval \<Rightarrow> pyval" where
  "field_payload R field_value =
     (case field_value of
        JObj d \<Rightarrow>
          (case map_of d ''number'' of
             Some n \<Rightarrow> JStr (py_str R n)
           | None \<Rightarrow> (case map_of d ''text'' of Some t \<Rightarrow> t | None \<Rightarrow> JStr []))
      | _ \<Rightarrow> JStr [])"

text \<open>The first field value with the name, whether or not it carries anything.\<close>

definition first_story_points :: "pyval \<Rightarrow> pyval option" where
  "first_story_points item = find names_story_points (field_values item)"

text \<open>The story points of an item: what the first field value with the name carries.\<close>

definition story_points_of :: "(pyval \<Rightarrow> string) \<Rightarrow> pyval \<Rightarrow> pyval" where
  "story_points_of R item =
     (case first_story_points item of None \<Rightarrow> JStr [] | Some fv \<Rightarrow> field_payload R fv)"

text \<open>An item has content when \<^verbatim>\<open>item.get("content")\<close> is truthy.\<close>

definition has_content :: "pyval \<Rightarrow> bool" where
  "has_content item = (case item of JObj kvs \<Rightarrow> truthy (entry kvs ''content'' JNull) | _ \<Rightarrow> False)"

text \<open>The Title cell of the row of an item, when the item yields a row.\<close>

definition title_cell :: "(pyval \<Rightarrow> string) \<Rightarrow> pyval \<Rightarrow> pyval option" where
  "title_cell R item = (case item_row R item of Inr (Some row) \<Rightarrow> Some (row ! 1) | _ \<Rightarrow> None)"

subsection \<open>The first field with a value\<close>

text \<open>
  The reading that lets the first field value win that has the name and carries a
  non-empty value.
\<close>

definition claimed_story_points :: "(pyval \<Rightarrow> string) \<Rightarrow> pyval \<Rightarrow> pyval" where
  "claimed_story_points R item =
     (case find (\<lambda>fv. names_story_points fv \<and> truthy (field_payload R fv)) (field_values item) of
        None \<Rightarrow> JStr []
      | Some fv \<Rightarrow> field_payload R fv)"

text \<open>The Title cell under that reading.\<close>

definition claimed_title :: "(pyval \<Rightarrow> string) \<Rightarrow> pyval \<Rightarrow> pyval" where
  "claimed_title R item = format_title R (claimed_story_points R item) (title_of item)"

subsection \<open>Well-formed items\<close>

text \<open>A label node is a mapping with a \<^verbatim>\<open>name\<close>.\<close>

definition wf_label_node :: "pyval \<Rightarrow> bool" where
  "wf_label_node node = (case node of JObj d \<Rightarrow> map_of d ''name'' \<noteq> None | _ \<Rightarrow> False)"

text \<open>
  \<^verbatim>\<open>labels\<close> is missing, or a mapping whose \<^verbatim>\<open>nodes\<close> are missing, falsy or a list of
  label nodes.
\<close>

definition wf_labels :: "(string \<times> pyval) list \<Rightarrow> bool" where
  "wf_labels c =
     (case map_of c ''labels'' of
        None \<Rightarrow> True
      | Some (JObj l) \<Rightarrow>
          (case map_of l ''nodes'' of
             None \<Rightarrow> True
           | Some (JList nodes) \<Rightarrow> list_all wf_label_node nodes
           | Some v \<Rightarrow> \<not> truthy v)
      | Some _ \<Rightarrow> False)"

text \<open>\<^verbatim>\<open>body\<close> is missing, falsy (null among others) or a string.\<close>

definition wf_body :: "(string \<times> pyval) list \<Rightarrow> bool" where
  "wf_body c = (case map_of c ''body'' of None \<Rightarrow> True | Some (JStr s) \<Rightarrow> True | Some v \<Rightarrow> \<not> truthy v)"

text \<open>
  A field value is a mapping whose \<^verbatim>\<open>field\<close>, when present, is a mapping whose
  \<^verbatim>\<open>name\<close>, when present, is a string. The empty mapping that the query leaves of a
  field of another type is one.
\<close>

definition wf_field_value :: "pyval \<Rightarrow> bool" where
  "wf_field_value field_value =
     (case field_value of
        JObj d \<Rightarrow>
          (case map_of d ''field'' of
             None \<Rightarrow> True
           | Some (JObj field_info) \<Rightarrow>
               (case map_of field_info ''name'' of None \<Rightarrow> True | Some (JStr name) \<Rightarrow> True | Some _ \<Rightarrow> False)
           | Some _ \<Rightarrow> False)
      | _ \<Rightarrow> False)"

text \<open>
  \<^verbatim>\<open>fieldValues\<close> is missing, or a mapping whose \<^verbatim>\<open>nodes\<close> are missing or a list of
  field values.
\<close>

definition wf_field_values :: "(string \<times> pyval) list \<Rightarrow> bool" where
  "wf_field_values kvs =
     (case map_of kvs ''fieldValues'' of
        None \<Rightarrow> True
      | Some (JObj f) \<Rightarrow>
          (case map_of f ''nodes'' of
             None \<Rightarrow> True
           | Some (JList fvs) \<Rightarrow> list_all wf_field_value fvs
           | Some _ \<Rightarrow> False)
      | Some _ \<Rightarrow> False)"

text \<open>
  An item is a mapping whose content is falsy, or a mapping with well-formed labels and
  body beside well-formed field values.
\<close>

definition wf_item :: "pyval \<Rightarrow> bool" where
  "wf_item item =
     (case item of
        JObj kvs \<Rightarrow>
          (case entry kvs ''content'' JNull of
             JObj c \<Rightarrow> c = [] \<or> (wf_labels c \<and> wf_body c \<and> wf_field_values kvs)
           | v \<Rightarrow> \<not> truthy v)
      | _ \<Rightarrow> False)"

subsection \<open>Failing page fetches\<close>

text \<open>
  The invocation of the tool that \<^verbatim>\<open>_make_graphql_request\<close> makes for a query and its
  variables.
\<close>

definition graphql_invocation :: "env \<Rightarrow> string \<Rightarrow> pyval \<Rightarrow> invocation" where
  "graphql_invocation E query vars =
     ([''gh'', ''api'', ''graphql'', ''--input'', ''-''],
      Some (json_dumps E (JObj [(''query'', JStr query), (''variables'', vars)])))"

text \<open>The first line \<^verbatim>\<open>export_to_csv\<close> prints.\<close>

definition fetching_line :: "string \<Rightarrow> int \<Rightarrow> out_line" where
  "fetching_line org project_number =
     Line (''Fetching project data for '' @ org @ ''/projects/'' @ str_int project_number @ ''...'')"

text \<open>
  A page fetch fails with \<open>e\<close>: the request for the current cursor raises \<open>e\<close>, or it
  returns a page that announces a next page and a fetch from that page's end cursor on
  fails with \<open>e\<close>. The last argument is the world the failure leaves.
\<close>

inductive fetch_fails ::
  "'s transport \<Rightarrow> string \<Rightarrow> int \<Rightarrow> pyval \<Rightarrow> 's \<Rightarrow> error \<Rightarrow> 's \<Rightarrow> bool"
  for request :: "'s transport" and org :: string and project_number :: int
where
  this_page:
    "request items_query (variables org project_number cursor) s = (Inl e, s') \<Longrightarrow>
     fetch_fails request org project_number cursor s e s'"
| later_page:
    "request items_query (variables org project_number cursor) s = (Inr data, s1) \<Longrightarrow>
     read_page data = Inr (new_items, Some end_cursor) \<Longrightarrow>
     fetch_fails request org project_number end_cursor s1 e s' \<Longrightarrow>
     fetch_fails request org project_number cursor s e s'"

code_pred fetch_fails .

subsection \<open>Examples\<close>

text \<open>The text of lists and dicts in the examples, none of which depends on it.\<close>

definition plain_repr :: "pyval \<Rightarrow> string" where
  "plain_repr v = ''<object>''"

text \<open>A number field value and a text field value, as the query returns them.\<close>

definition number_field :: "string \<Rightarrow> pyval \<Rightarrow> pyval" where
  "number_field name n = JObj [(''number'', n), (''field'', JObj [(''name'', JStr name)])]"

definition text_field :: "string \<Rightarrow> string \<Rightarrow> pyval" where
  "text_field name t = JObj [(''text'', JStr t), (''field'', JObj [(''name'', JStr name)])]"

text \<open>An item linked to issue 42, with its label names, field values, title and body.\<close>

definition issue_item :: "string list \<Rightarrow> pyval list \<Rightarrow> string \<Rightarrow> string \<Rightarrow> pyval" where
  "issue_item labels field_nodes title body =
     JObj [(''id'', JStr ''PVTI_1''),
           (''fieldValues'', JObj [(''nodes'', JList field_nodes)]),
           (''content'',
              JObj [(''number'', JInt 42),
                    (''title'', JStr title),
                    (''body'', JStr body),
                    (''url'', JStr ''https://github.com/conda/conda/issues/42''),
                    (''labels'', JObj [(''nodes'', JList (map (\<lambda>n. JObj [(''name'', JStr n)]) labels))])])]"

text \<open>Two fields with the name: the first with the empty text, the second with the number 5.\<close>

definition shadowed_item :: pyval where
  "shadowed_item =
     issue_item [] [text_field ''Story Points'' [], number_field ''story points'' (JInt 5)] ''T'' []"

text \<open>Items and the rows expected of them.\<close>

definition five_points_item :: pyval where
  "five_points_item =
     issue_item [] [JObj [], number_field ''STORY POINTS'' (JInt 5)] ''Fix the solver'' []"

definition five_points_row :: "pyval list" where
  "five_points_row =
     [JStr ''Story'', JStr ''[5] Fix the solver'', JStr ''42'',
      JStr ''https://github.com/conda/conda/issues/42'', JStr [], JStr []]"

definition no_points_item :: pyval where
  "no_points_item = issue_item [] [JObj [], text_field ''Status'' ''Done''] ''Fix the solver'' []"

definition no_points_row :: "pyval list" where
  "no_points_row =
     [JStr ''Story'', JStr ''Fix the solver'', JStr ''42'',
      JStr ''https://github.com/conda/conda/issues/42'', JStr [], JStr []]"

definition epic_item :: pyval where
  "epic_item = issue_item [''bug'', ''Epic''] [] ''Roadmap'' []"

definition epic_row :: "pyval list" where
  "epic_row =
     [JStr ''Epic'', JStr ''Roadmap'', JStr ''42'',
      JStr ''https://github.com/conda/conda/issues/42'', JStr [], JStr []]"

definition lower_epic_item :: pyval where
  "lower_epic_item = issue_item [''epic'', ''EPIC''] [] ''Roadmap'' []"

definition lower_epic_row :: "pyval list" where
  "lower_epic_row =
     [JStr ''Story'', JStr ''Roadmap'', JStr ''42'',
      JStr ''https://github.com/conda/conda/issues/42'', JStr [], JStr []]"

definition three_lines :: string where
  "three_lines = ''Line1'' @ [newline] @ ''Line2'' @ [carriage_return, newline] @ ''Line3''"

definition three_lines_item :: pyval where
  "three_lines_item = issue_item [] [] ''Notes'' three_lines"

definition three_lines_row :: "pyval list" where
  "three_lines_row =
     [JStr ''Story'', JStr ''Notes'', JStr ''42'',
      JStr ''https://github.com/conda/conda/issues/42'', JStr ''Line1 Line2  Line3'', JStr []]"

definition zero_points_item :: pyval where
  "zero_points_item = issue_item [] [number_field ''Story points'' (JInt 0)] ''Triage'' []"

definition zero_points_row :: "pyval list" where
  "zero_points_row =
     [JStr ''Story'', JStr ''[0] Triage'', JStr ''42'',
      JStr ''https://github.com/conda/conda/issues/42'', JStr [], JStr []]"

definition empty_text_item :: pyval where
  "empty_text_item = issue_item [] [text_field ''Story points'' []] ''Triage'' []"

definition empty_text_row :: "pyval list" where
  "empty_text_row =
     [JStr ''Story'', JStr ''Triage'', JStr ''42'',
      JStr ''https://github.com/conda/conda/issues/42'', JStr [], JStr []]"

text \<open>
  The number fields of the API are floats: items whose field carries 5.0 and 0.0, with
  the rows expected of them, and the shadowed item without its second field.
\<close>

definition five_float_item :: pyval where
  "five_float_item = issue_item [] [number_field ''Story Points'' (JFloat ''5.0'')] ''T'' []"

definition five_float_row :: "pyval list" where
  "five_float_row =
     [JStr ''Story'', JStr ''[5.0] T'', JStr ''42'',
      JStr ''https://github.com/conda/conda/issues/42'', JStr [], JStr []]"

definition unshadowed_item :: pyval where
  "unshadowed_item = issue_item [] [text_field ''Story Points'' []] ''T'' []"

definition zero_float_item :: pyval where
  "zero_float_item = issue_item [] [number_field ''Story points'' (JFloat ''0.0'')] ''Triage'' []"

definition zero_float_row :: "pyval list" where
  "zero_float_row =
     [JStr ''Story'', JStr ''[0.0] Triage'', JStr ''42'',
      JStr ''https://github.com/conda/conda/issues/42'', JStr [], JStr []]"

text \<open>
  A draft issue (the query leaves the empty mapping of its content), an item whose
  content is null, an item whose content has none of the entries read and a null body,
  and items with a null \<^verbatim>\<open>labels\<close> and a null \<^verbatim>\<open>number\<close> entry.
\<close>

definition draft_item :: pyval where
  "draft_item = JObj [(''id'', JStr ''PVTI_2''), (''fieldValues'', JObj [(''nodes'', JList [JObj []])]),
                      (''content'', JObj [])]"

definition redacted_item :: pyval where
  "redacted_item = JObj [(''id'', JStr ''PVTI_3''), (''content'', JNull)]"

definition bare_item :: pyval where
  "bare_item = JObj [(''content'', JObj [(''body'', JNull), (''__typename'', JStr ''Issue'')])]"

definition null_labels_item :: pyval where
  "null_labels_item = JObj [(''content'', JObj [(''title'', JStr ''T''), (''labels'', JNull)])]"

definition null_number_item :: pyval where
  "null_number_item = JObj [(''content'', JObj [(''title'', JStr ''T''), (''number'', JNull)])]"

text \<open>The 207 items of three pages of 100, 100 and 7.\<close>

definition node :: "nat \<Rightarrow> pyval" where
  "node i = JObj [(''id'', JInt (int i)), (''content'', JNull)]"

definition three_pages :: "(pyval list \<times> pyval) list" where
  "three_pages =
     [(map node [0..<100], JStr ''Y3Vyc29yOjEwMA==''),
      (map node [100..<200], JStr ''Y3Vyc29yOjIwMA==''),
      (map node [200..<207], JNull)]"

text \<open>
  A tool that answers its k-th invocation with the k-th outcome of a script, and is not
  found once the script is used up.
\<close>

definition scripted_gh :: "proc_outcome list \<Rightarrow> invocation list \<Rightarrow> proc_outcome" where
  "scripted_gh outcomes h =
     (if 0 < length h \<and> length h \<le> length outcomes then outcomes ! (length h - 1) else NotFound)"

text \<open>JSON texts the tool prints in the examples, and the values \<^verbatim>\<open>json.loads\<close> gives for them.\<close>

definition quoted :: "string \<Rightarrow> string" where
  "quoted s = CHR 0x22 # s @ [CHR 0x22]"

definition errors_text :: string where
  "errors_text = ''{'' @ quoted ''errors'' @ '': [{'' @ quoted ''type'' @ '': '' @ quoted ''NOT_FOUND'' @ ''}]}''"

definition errors_response :: pyval where
  "errors_response = JObj [(''errors'', JList [JObj [(''type'', JStr ''NOT_FOUND'')]])]"

definition viewer_text :: string where
  "viewer_text = ''{'' @ quoted ''data'' @ '': {'' @ quoted ''viewer'' @ '': null}}''"

definition viewer_response :: pyval where
  "viewer_response = JObj [(''data'', JObj [(''viewer'', JNull)])]"

definition decode_message :: string where
  "decode_message = ''Expecting value: line 1 column 1 (char 0)''"

definition page_text :: "string \<Rightarrow> string \<Rightarrow> string \<Rightarrow> string" where
  "page_text has_next end_cursor nodes =
     ''{'' @ quoted ''data'' @ '': {'' @ quoted ''organization'' @ '': {'' @
     quoted ''projectV2'' @ '': {'' @ quoted ''items'' @ '': {'' @
     quoted ''pageInfo'' @ '': {'' @ quoted ''hasNextPage'' @ '': '' @ has_next @ '', '' @
     quoted ''endCursor'' @ '': '' @ end_cursor @ ''}, '' @
     quoted ''nodes'' @ '': ['' @ nodes @ '']}}}}}''"

definition first_page_text :: string where
  "first_page_text = page_text ''true'' (quoted ''Mg'') []"

definition first_page_response :: pyval where
  "first_page_response = JObj [(''data'', page_data [] True (JStr ''Mg''))]"

text \<open>\<^verbatim>\<open>json.loads\<close> on the texts above; any other text of the examples does not parse.\<close>

definition example_loads :: "string \<Rightarrow> string + pyval" where
  "example_loads s =
     (if s = errors_text then Inr errors_response
      else if s = viewer_text then Inr viewer_response
      else if s = first_page_text then Inr first_page_response
      else Inl decode_message)"

text \<open>The surroundings of the examples, for a script of the tool.\<close>

definition example_env :: "proc_outcome list \<Rightarrow> env" where
  "example_env outcomes =
     \<lparr>gh = scripted_gh outcomes, json_dumps = (\<lambda>payload. ''{}''),
      json_loads = example_loads, py_repr = plain_repr,
      open_error = (\<lambda>path. None), write_error = (\<lambda>path rows. None)\<rparr>"

text \<open>The world in which nothing has happened yet.\<close>

definition fresh_world :: world where
  "fresh_world = \<lparr>history = [], files = Map.empty, console = []\<rparr>"

text \<open>
  The session is authenticated, the first page arrives and announces a next page, and
  the fetch of the second page fails.
\<close>

definition failing_env :: env where
  "failing_env =
     example_env [Exited 0 ''Logged in to github.com'' [],
                  Exited 0 first_page_text [],
                  Exited 1 [] ''HTTP 502: Bad Gateway'']"

section \<open>Properties\<close>

subsection \<open>The error monad and the loop body\<close>

lemma ebind_Inl [simp]: "ebind (Inl e) f = Inl e"
  by (simp add: ebind_def)

lemma ebind_Inr [simp]: "ebind (Inr v) f = f v"
  by (simp add: ebind_def)

lemma ebind_eq_Inr: "ebind m f = Inr y \<longleftrightarrow> (\<exists>v. m = Inr v \<and> f v = Inr y)"
  by (cases m) simp_all

lemma clean_newlines_eq_Inr: "clean_newlines b = Inr d \<Longrightarrow> \<exists>s. b = JStr s"
  by (cases b) simp_all

text \<open>The loop body on a dict, with the four \<^verbatim>\<open>content.get\<close> calls resolved.\<close>

lemma item_row_JObj:
  "item_row R (JObj kvs) =
     (if \<not> truthy (entry kvs ''content'' JNull) then Inr None
      else case entry kvs ''content'' JNull of
        JObj c \<Rightarrow>
          ebind (extract_labels (JObj c)) (\<lambda>labels.
          ebind (extract_story_points R (JObj kvs)) (\<lambda>story_points.
          ebind (clean_newlines (body_of c)) (\<lambda>description.
            Inr (Some [JStr (issue_type labels),
                       format_title R story_points (entry c ''title'' (JStr [])),
                       JStr (py_str R (entry c ''number'' (JStr []))),
                       entry c ''url'' (JStr []),
                       description,
                       JStr []]))))
      | _ \<Rightarrow> Inl AttributeError)"
  by (simp add: item_row_def entry_def body_of_def Let_def split: pyval.splits)

text \<open>What is known of an item that produced a row.\<close>

lemma item_row_Some:
  assumes "item_row R item = Inr (Some row)"
  obtains kvs c labels story_points description where
    "item = JObj kvs" "map_of kvs ''content'' = Some (JObj c)" "c \<noteq> []"
    "extract_labels (JObj c) = Inr labels"
    "extract_story_points R item = Inr story_points"
    "clean_newlines (body_of c) = Inr description"
    "row = [JStr (issue_type labels),
            format_title R story_points (entry c ''title'' (JStr [])),
            JStr (py_str R (entry c ''number'' (JStr []))),
            entry c ''url'' (JStr []),
            description,
            JStr []]"
proof -
  from assms obtain kvs where item: "item = JObj kvs"
    by (cases item) (simp_all add: item_row_def)
  from assms item have t: "truthy (entry kvs ''content'' JNull)"
    by (auto simp: item_row_JObj split: if_splits)
  with assms item obtain c where c: "entry kvs ''content'' JNull = JObj c"
    by (cases "entry kvs ''content'' JNull") (simp_all add: item_row_JObj)
  with t have ne: "c \<noteq> []" by simp
  from c have m: "map_of kvs ''content'' = Some (JObj c)"
    by (simp add: entry_def split: option.splits)
  from assms item t c obtain labels story_points description where
    "extract_labels (JObj c) = Inr labels"
    "extract_story_points R item = Inr story_points"
    "clean_newlines (body_of c) = Inr description"
    "row = [JStr (issue_type labels),
            format_title R story_points (entry c ''title'' (JStr [])),
            JStr (py_str R (entry c ''number'' (JStr []))),
            entry c ''url'' (JStr []),
            description,
            JStr []]"
    by (auto simp: item_row_JObj ebind_eq_Inr)
  with item m ne show thesis by (rule that)
qed

lemma emap_names:
  "emap (\<lambda>label. getitem label ''name'') nodes = Inr ls \<Longrightarrow> ls = List.map_filter label_name nodes"
proof (induction nodes arbitrary: ls)
  case Nil
  then show ?case by simp
next
  case (Cons n nodes)
  from Cons.prems obtain v vs where
    v: "getitem n ''name'' = Inr v" and vs: "emap (\<lambda>label. getitem label ''name'') nodes = Inr vs"
    and ls: "ls = v # vs"
    by (auto simp: ebind_eq_Inr)
  from v have "label_name n = Some v"
    by (cases n) (auto simp: label_name_def split: option.splits)
  with Cons.IH [OF vs] ls show ?case by simp
qed

lemma emap_chars_fail: "s \<noteq> [] \<Longrightarrow> emap (\<lambda>label. getitem label k) (map (\<lambda>c. JStr [c]) s) = Inl TypeError"
  by (cases s) simp_all

lemma emap_keys_fail: "kvs \<noteq> [] \<Longrightarrow> emap (\<lambda>label. getitem label k) (map (\<lambda>kv. JStr (fst kv)) kvs) = Inl TypeError"
  by (cases kvs) simp_all

lemma extract_labels_set:
  assumes "extract_labels (JObj c) = Inr ls"
  shows "set ls =
     (case map_of c ''labels'' of
        Some (JObj l) \<Rightarrow>
          (case map_of l ''nodes'' of
             Some (JList nodes) \<Rightarrow> set (List.map_filter label_name nodes)
           | _ \<Rightarrow> {})
      | _ \<Rightarrow> {})"
proof (cases "map_of c ''labels''")
  case None
  with assms show ?thesis by (simp add: extract_labels_def)
next
  case (Some lv)
  with assms obtain l where lv: "lv = JObj l"
    by (cases lv) (simp_all add: extract_labels_def)
  show ?thesis
  proof (cases "map_of l ''nodes''")
    case None
    with assms Some lv show ?thesis by (simp add: extract_labels_def)
  next
    case nodes: (Some nv)
    show ?thesis
    proof (cases "truthy nv")
      case False
      with assms Some lv nodes have "ls = []" by (simp add: extract_labels_def)
      with False Some lv nodes show ?thesis
        by (cases nv) simp_all
    next
      case True
      with assms Some lv nodes have e: "ebind (py_iter nv) (emap (\<lambda>label. getitem label ''name'')) = Inr ls"
        by (simp add: extract_labels_def)
      then obtain ns where nv: "nv = JList ns"
        using True by (cases nv) (simp_all add: emap_chars_fail emap_keys_fail)
      with e have "ls = List.map_filter label_name ns" by (simp add: emap_names)
      with Some lv nodes nv show ?thesis by simp
    qed
  qed
qed

lemma content_of_row:
  "item = JObj kvs \<Longrightarrow> map_of kvs ''content'' = Some (JObj c) \<Longrightarrow> content_of item = c"
  by (simp add: content_of_def)

lemma clean_newlines_blank: "clean_newlines (JStr s) = Inr (JStr (blank_line_breaks s))"
  by (simp add: replace_chr_def blank_line_breaks_def newline_def carriage_return_def)

lemma body_of_text:
  assumes "body_of c = JStr s"
  shows "(case map_of c ''body'' of Some (JStr s) \<Rightarrow> s | _ \<Rightarrow> []) = s"
proof (cases "truthy (entry c ''body'' JNull)")
  case True
  with assms show ?thesis by (simp add: body_of_def entry_def split: option.splits)
next
  case False
  with assms have "s = []" by (simp add: body_of_def)
  with False show ?thesis
    by (auto simp: entry_def split: option.splits pyval.splits)
qed

lemma names_story_points_JObj:
  "names_story_points (JObj d) =
     (case entry d ''field'' (JObj []) of
        JObj field_info \<Rightarrow>
          (case entry field_info ''name'' (JStr []) of
             JStr name \<Rightarrow> map lower_chr name = ''story points''
           | _ \<Rightarrow> False)
      | _ \<Rightarrow> False)"
  by (simp add: names_story_points_def entry_def split: option.splits pyval.splits)

lemma story_points_loop_JObj:
  "story_points_loop R (JObj d # rest) =
     (case entry d ''field'' (JObj []) of
        JObj field_info \<Rightarrow>
          (case entry field_info ''name'' (JStr []) of
             JStr name \<Rightarrow>
               if map lower_chr name = ''story points'' then Inr (field_payload R (JObj d))
               else story_points_loop R rest
           | _ \<Rightarrow> Inl AttributeError)
      | _ \<Rightarrow> Inl AttributeError)"
  by (simp add: entry_def field_payload_def split: option.splits pyval.splits)

lemma story_points_loop_step:
  assumes "story_points_loop R (fv # rest) = Inr sp"
  shows "if names_story_points fv then sp = field_payload R fv
         else story_points_loop R rest = Inr sp"
proof -
  from assms obtain d where fv: "fv = JObj d"
    by (cases fv) simp_all
  from assms show ?thesis
    unfolding fv names_story_points_JObj story_points_loop_JObj
    by (auto split: pyval.splits if_splits)
qed

lemma story_points_loop_find:
  "story_points_loop R fvs = Inr sp \<Longrightarrow>
   sp = (case find names_story_points fvs of None \<Rightarrow> JStr [] | Some fv \<Rightarrow> field_payload R fv)"
proof (induction fvs)
  case Nil
  then show ?case by simp
next
  case (Cons fv rest)
  from story_points_loop_step [OF Cons.prems] Cons.IH show ?case
    by (cases "names_story_points fv") simp_all
qed

lemma loop_chars_fail: "s \<noteq> [] \<Longrightarrow> story_points_loop R (map (\<lambda>c. JStr [c]) s) = Inl AttributeError"
  by (cases s) simp_all

lemma loop_keys_fail: "kvs \<noteq> [] \<Longrightarrow> story_points_loop R (map (\<lambda>kv. JStr (fst kv)) kvs) = Inl AttributeError"
  by (cases kvs) simp_all

lemma extract_story_points_loop:
  assumes "extract_story_points R item = Inr sp"
  shows "story_points_loop R (field_values item) = Inr sp"
proof -
  from assms obtain kvs where item: "item = JObj kvs"
    by (cases item) (simp_all add: extract_story_points_def)
  show ?thesis
  proof (cases "map_of kvs ''fieldValues''")
    case None
    with assms item show ?thesis by (simp add: extract_story_points_def field_values_def)
  next
    case (Some fv)
    with assms item obtain f where f: "fv = JObj f"
      by (cases fv) (simp_all add: extract_story_points_def)
    show ?thesis
    proof (cases "map_of f ''nodes''")
      case None
      with assms item Some f show ?thesis by (simp add: extract_story_points_def field_values_def)
    next
      case nodes: (Some nv)
      with assms item Some f have e: "ebind (py_iter nv) (story_points_loop R) = Inr sp"
        by (simp add: extract_story_points_def)
      show ?thesis
      proof (cases nv)
        case (JList fvs)
        with e item Some f nodes show ?thesis by (simp add: field_values_def)
      next
        case (JStr s)
        with e have "s = []" by (cases "s = []") (simp_all add: loop_chars_fail)
        with e JStr item Some f nodes show ?thesis by (auto simp: field_values_def)
      next
        case (JObj d)
        with e have "d = []" by (cases "d = []") (simp_all add: loop_keys_fail)
        with e JObj item Some f nodes show ?thesis by (auto simp: field_values_def)
      qed (use e in simp_all)
    qed
  qed
qed

lemma extract_story_points_first:
  "extract_story_points R item = Inr sp \<Longrightarrow> sp = story_points_of R item"
  by (simp add: story_points_of_def first_story_points_def
        story_points_loop_find [OF extract_story_points_loop])

lemma lower_chr_ascii:
  "lower_chr CHR ''A'' = CHR ''a''" "lower_chr CHR ''B'' = CHR ''b''"
  "lower_chr CHR ''C'' = CHR ''c''" "lower_chr CHR ''D'' = CHR ''d''"
  "lower_chr CHR ''E'' = CHR ''e''" "lower_chr CHR ''F'' = CHR ''f''"
  "lower_chr CHR ''G'' = CHR ''g''" "lower_chr CHR ''H'' = CHR ''h''"
  "lower_chr CHR ''I'' = CHR ''i''" "lower_chr CHR ''J'' = CHR ''j''"
  "lower_chr CHR ''K'' = CHR ''k''" "lower_chr CHR ''L'' = CHR ''l''"
  "lower_chr CHR ''M'' = CHR ''m''" "lower_chr CHR ''N'' = CHR ''n''"
  "lower_chr CHR ''O'' = CHR ''o''" "lower_chr CHR ''P'' = CHR ''p''"
  "lower_chr CHR ''Q'' = CHR ''q''" "lower_chr CHR ''R'' = CHR ''r''"
  "lower_chr CHR ''S'' = CHR ''s''" "lower_chr CHR ''T'' = CHR ''t''"
  "lower_chr CHR ''U'' = CHR ''u''" "lower_chr CHR ''V'' = CHR ''v''"
  "lower_chr CHR ''W'' = CHR ''w''" "lower_chr CHR ''X'' = CHR ''x''"
  "lower_chr CHR ''Y'' = CHR ''y''" "lower_chr CHR ''Z'' = CHR ''z''"
  "lower_chr CHR ''a'' = CHR ''a''" "lower_chr CHR ''b'' = CHR ''b''"
  "lower_chr CHR ''c'' = CHR ''c''" "lower_chr CHR ''d'' = CHR ''d''"
  "lower_chr CHR ''e'' = CHR ''e''" "lower_chr CHR ''f'' = CHR ''f''"
  "lower_chr CHR ''g'' = CHR ''g''" "lower_chr CHR ''h'' = CHR ''h''"
  "lower_chr CHR ''i'' = CHR ''i''" "lower_chr CHR ''j'' = CHR ''j''"
  "lower_chr CHR ''k'' = CHR ''k''" "lower_chr CHR ''l'' = CHR ''l''"
  "lower_chr CHR ''m'' = CHR ''m''" "lower_chr CHR ''n'' = CHR ''n''"
  "lower_chr CHR ''o'' = CHR ''o''" "lower_chr CHR ''p'' = CHR ''p''"
  "lower_chr CHR ''q'' = CHR ''q''" "lower_chr CHR ''r'' = CHR ''r''"
  "lower_chr CHR ''s'' = CHR ''s''" "lower_chr CHR ''t'' = CHR ''t''"
  "lower_chr CHR ''u'' = CHR ''u''" "lower_chr CHR ''v'' = CHR ''v''"
  "lower_chr CHR ''w'' = CHR ''w''" "lower_chr CHR ''x'' = CHR ''x''"
  "lower_chr CHR ''y'' = CHR ''y''" "lower_chr CHR ''z'' = CHR ''z''"
  "lower_chr CHR '' '' = CHR '' ''"
  by code_simp+

lemmas eval_defs =
  item_row_JObj entry_def body_of_def extract_labels_def extract_story_points_def
  format_title_def issue_type_def lower_chr_ascii str_int_def str_nat.simps digit_chr_def
  replace_chr_def newline_def carriage_return_def
  issue_item_def number_field_def text_field_def

lemma str_int_5: "str_int 5 = ''5''"
  by (simp add: str_int_def str_nat.simps digit_chr_def)

lemma str_int_0: "str_int 0 = ''0''"
  by (simp add: str_int_def str_nat.simps digit_chr_def)

lemma title_cell_format:
  assumes "item_row R item = Inr (Some row)"
  shows "row ! 1 = format_title R (story_points_of R item) (title_of item)"
proof -
  from assms obtain kvs c labels story_points description where
    item: "item = JObj kvs" "map_of kvs ''content'' = Some (JObj c)"
    and sp: "extract_story_points R item = Inr story_points"
    and row: "row = [JStr (issue_type labels),
            format_title R story_points (entry c ''title'' (JStr [])),
            JStr (py_str R (entry c ''number'' (JStr []))),
            entry c ''url'' (JStr []),
            description,
            JStr []]"
    by (rule item_row_Some)
  from item have "title_of item = entry c ''title'' (JStr [])"
    by (simp add: title_of_def content_of_row)
  with row extract_story_points_first [OF sp] show ?thesis by simp
qed

subsection \<open>Rows of single items\<close>

text \<open>
  Claim C3. For every item that yields a row, the Type cell is \<^verbatim>\<open>Epic\<close> if the label set of
  its content holds the exact string \<^verbatim>\<open>Epic\<close>, and \<^verbatim>\<open>Story\<close> for every other label set.
\<close>

theorem type_epic_iff_label:
  assumes "item_row R item = Inr (Some row)"
  shows "row ! 0 = (if JStr ''Epic'' \<in> label_set item then JStr ''Epic'' else JStr ''Story'')"
proof -
  from assms obtain kvs c labels story_points description where
    item: "item = JObj kvs" "map_of kvs ''content'' = Some (JObj c)"
    and labels: "extract_labels (JObj c) = Inr labels"
    and row: "row = [JStr (issue_type labels),
            format_title R story_points (entry c ''title'' (JStr [])),
            JStr (py_str R (entry c ''number'' (JStr []))),
            entry c ''url'' (JStr []),
            description,
            JStr []]"
    by (rule item_row_Some)
  from item have "label_set item = set labels"
    by (simp add: label_set_def content_of_row extract_labels_set [OF labels])
  with row show ?thesis by (simp add: issue_type_def)
qed

text \<open>
  Claim C4. For every item that yields a row, the Description cell is the body with each
  line feed and each carriage return replaced by one space, and nothing else changed.
\<close>

theorem description_blanks_line_breaks:
  assumes "item_row R item = Inr (Some row)"
  shows "row ! 4 = JStr (blank_line_breaks (body_text item))"
proof -
  from assms obtain kvs c labels story_points description where
    item: "item = JObj kvs" "map_of kvs ''content'' = Some (JObj c)"
    and d: "clean_newlines (body_of c) = Inr description"
    and row: "row = [JStr (issue_type labels),
            format_title R story_points (entry c ''title'' (JStr [])),
            JStr (py_str R (entry c ''number'' (JStr []))),
            entry c ''url'' (JStr []),
            description,
            JStr []]"
    by (rule item_row_Some)
  from d obtain s where s: "body_of c = JStr s" by (auto dest: clean_newlines_eq_Inr)
  with item have "body_text item = s" by (simp add: body_text_def content_of_row body_of_text)
  with d s row show ?thesis by (simp add: clean_newlines_blank del: clean_newlines.simps)
qed

lemmas spec_defs =
  title_of_def content_of_def field_values_def names_story_points_def field_payload_def
  first_story_points_def label_set_def label_name_def body_text_def blank_line_breaks_def

theorem type_epic_iff_label_witness:
  "item_row plain_repr epic_item = Inr (Some epic_row) \<and> epic_row ! 0 = JStr ''Epic'' \<and>
   item_row plain_repr lower_epic_item = Inr (Some lower_epic_row) \<and>
   lower_epic_row ! 0 = JStr ''Story''"
proof -
  have e: "item_row plain_repr epic_item = Inr (Some epic_row)"
    by (simp add: epic_item_def epic_row_def eval_defs)
  have l: "item_row plain_repr lower_epic_item = Inr (Some lower_epic_row)"
    by (simp add: lower_epic_item_def lower_epic_row_def eval_defs)
  have "label_set epic_item = {JStr ''bug'', JStr ''Epic''}"
    by (simp add: epic_item_def spec_defs eval_defs)
  moreover have "label_set lower_epic_item = {JStr ''epic'', JStr ''EPIC''}"
    by (simp add: lower_epic_item_def spec_defs eval_defs)
  ultimately show ?thesis
    using e l type_epic_iff_label [OF e] type_epic_iff_label [OF l] by simp
qed

theorem description_blanks_line_breaks_witness:
  "item_row plain_repr three_lines_item = Inr (Some three_lines_row) \<and>
   body_text three_lines_item = three_lines \<and>
   three_lines_row ! 4 = JStr ''Line1 Line2  Line3''"
proof -
  have r: "item_row plain_repr three_lines_item = Inr (Some three_lines_row)"
    by (simp add: three_lines_item_def three_lines_row_def three_lines_def eval_defs)
  have b: "body_text three_lines_item = three_lines"
    by (simp add: three_lines_item_def spec_defs eval_defs)
  have "blank_line_breaks three_lines = ''Line1 Line2  Line3''"
    by (simp add: three_lines_def blank_line_breaks_def newline_def carriage_return_def)
  with r b description_blanks_line_breaks [OF r] show ?thesis by simp
qed

lemma story_points_loop_stops:
  assumes "names_story_points fv"
  shows "story_points_loop R (pre @ fv # post) = story_points_loop R (pre @ [fv])"
proof (induction pre)
  case Nil
  from assms obtain d where fv: "fv = JObj d"
    by (cases fv) (simp_all add: names_story_points_def)
  from assms show ?case
    unfolding fv names_story_points_JObj
    by (simp add: story_points_loop_JObj del: story_points_loop.simps split: pyval.splits)
next
  case (Cons p pre)
  then show ?case by (simp cong: if_cong)
qed

lemma extract_story_points_nodes:
  "map_of kvs ''fieldValues'' = Some (JObj f) \<Longrightarrow> map_of f ''nodes'' = Some (JList fvs) \<Longrightarrow>
   extract_story_points R (JObj kvs) = story_points_loop R fvs"
  by (simp add: extract_story_points_def)

lemma item_row_cong:
  "map_of kvs' ''content'' = map_of kvs ''content'' \<Longrightarrow>
   extract_story_points R (JObj kvs') = extract_story_points R (JObj kvs) \<Longrightarrow>
   item_row R (JObj kvs') = item_row R (JObj kvs)"
  by (simp add: item_row_JObj entry_def cong: pyval.case_cong)

lemma item_row_later_fields:
  assumes "names_story_points fv"
    and "map_of kvs ''fieldValues'' = Some (JObj f)"
    and "map_of f ''nodes'' = Some (JList (pre @ fv # post))"
    and "map_of kvs' ''fieldValues'' = Some (JObj f')"
    and "map_of f' ''nodes'' = Some (JList (pre @ fv # post'))"
    and "map_of kvs' ''content'' = map_of kvs ''content''"
  shows "item_row R (JObj kvs') = item_row R (JObj kvs)"
proof (rule item_row_cong [OF assms(6)])
  have "extract_story_points R (JObj kvs') = story_points_loop R (pre @ fv # post')"
    by (rule extract_story_points_nodes [OF assms(4,5)])
  also have "\<dots> = story_points_loop R (pre @ [fv])"
    by (rule story_points_loop_stops [OF assms(1)])
  also have "\<dots> = story_points_loop R (pre @ fv # post)"
    by (rule story_points_loop_stops [OF assms(1), symmetric])
  also have "\<dots> = extract_story_points R (JObj kvs)"
    by (rule extract_story_points_nodes [OF assms(2,3), symmetric])
  finally show "extract_story_points R (JObj kvs') = extract_story_points R (JObj kvs)" .
qed

text \<open>
  Claim C2, as the code has it. For every item that yields a row, the Title cell is the
  title prefixed with the story points in brackets exactly when the first field whose
  lowered name is \<^verbatim>\<open>story points\<close>, whether or not it carries a value, gives a non-empty
  value: the text of its \<^verbatim>\<open>number\<close> entry when it has one, else its \<^verbatim>\<open>text\<close> entry. The
  prefix is the text \<^verbatim>\<open>str\<close> gives for the number: \<^verbatim>\<open>[5]\<close> for the integer 5 and \<^verbatim>\<open>[5.0]\<close>
  for the float 5.0; without such a field the title is unchanged. A field with the name
  ends the search: two items with the same content whose field values agree up to and
  including such a field end alike, with the same row or the same exception, whatever
  fields follow.
\<close>

theorem title_prefix_first_name_match:
  "(item_row R item = Inr (Some row) \<longrightarrow>
      row ! 1 =
        (if truthy (story_points_of R item)
         then JStr (''['' @ py_str R (story_points_of R item) @ ''] '' @ py_str R (title_of item))
         else title_of item) \<and>
      (\<forall>d. first_story_points item = Some (JObj d) \<and> map_of d ''number'' = Some (JInt 5) \<longrightarrow>
         row ! 1 = JStr (''[5] '' @ py_str R (title_of item))) \<and>
      (\<forall>d. first_story_points item = Some (JObj d) \<and> map_of d ''number'' = Some (JFloat ''5.0'') \<longrightarrow>
         row ! 1 = JStr (''[5.0] '' @ py_str R (title_of item))) \<and>
      (first_story_points item = None \<longrightarrow> row ! 1 = title_of item)) \<and>
   (names_story_points fv \<and>
    map_of kvs ''fieldValues'' = Some (JObj f) \<and>
    map_of f ''nodes'' = Some (JList (pre @ fv # post)) \<and>
    map_of kvs' ''fieldValues'' = Some (JObj f') \<and>
    map_of f' ''nodes'' = Some (JList (pre @ fv # post')) \<and>
    map_of kvs' ''content'' = map_of kvs ''content'' \<longrightarrow>
      item_row R (JObj kvs') = item_row R (JObj kvs))"
proof (intro conjI impI)
  assume "names_story_points fv \<and>
    map_of kvs ''fieldValues'' = Some (JObj f) \<and>
    map_of f ''nodes'' = Some (JList (pre @ fv # post)) \<and>
    map_of kvs' ''fieldValues'' = Some (JObj f') \<and>
    map_of f' ''nodes'' = Some (JList (pre @ fv # post')) \<and>
    map_of kvs' ''content'' = map_of kvs ''content''"
  then show "item_row R (JObj kvs') = item_row R (JObj kvs)"
    by (elim conjE) (rule item_row_later_fields)
next
  assume r: "item_row R item = Inr (Some row)"
  note cell = title_cell_format [OF r]
  show "row ! 1 =
        (if truthy (story_points_of R item)
         then JStr (''['' @ py_str R (story_points_of R item) @ ''] '' @ py_str R (title_of item))
         else title_of item)"
    using cell by (simp add: format_title_def)
  show "\<forall>d. first_story_points item = Some (JObj d) \<and> map_of d ''number'' = Some (JInt 5) \<longrightarrow>
         row ! 1 = JStr (''[5] '' @ py_str R (title_of item))"
    using cell by (simp add: format_title_def story_points_of_def field_payload_def str_int_5)
  show "\<forall>d. first_story_points item = Some (JObj d) \<and> map_of d ''number'' = Some (JFloat ''5.0'') \<longrightarrow>
         row ! 1 = JStr (''[5.0] '' @ py_str R (title_of item))"
    using cell by (simp add: format_title_def story_points_of_def field_payload_def)
  show "row ! 1 = title_of item" if "first_story_points item = None"
    using cell that by (simp add: format_title_def story_points_of_def)
qed

text \<open>
  Claim C2 as stated lets the first name match that carries a non-empty value win, and
  gives \<^verbatim>\<open>[5]\<close> for a numeric value 5. An item whose first \<^verbatim>\<open>Story Points\<close> field has the
  empty text and whose second has the number 5 keeps its bare title, where the claim
  gives \<^verbatim>\<open>[5] T\<close>; and the float 5.0 gives \<^verbatim>\<open>[5.0] T\<close>.
\<close>

theorem first_valued_match_counterexample:
  "title_cell plain_repr shadowed_item = Some (JStr ''T'') \<and>
   claimed_title plain_repr shadowed_item = JStr ''[5] T'' \<and>
   title_cell plain_repr five_float_item = Some (JStr ''[5.0] T'')"
  by (simp add: title_cell_def claimed_title_def claimed_story_points_def shadowed_item_def
        five_float_item_def
        title_of_def content_of_def field_values_def names_story_points_def field_payload_def
        eval_defs)

theorem title_prefix_first_name_match_witness:
  "item_row plain_repr five_points_item = Inr (Some five_points_row) \<and>
   five_points_row ! 1 = JStr ''[5] Fix the solver'' \<and>
   item_row plain_repr five_float_item = Inr (Some five_float_row) \<and>
   five_float_row ! 1 = JStr ''[5.0] T'' \<and>
   item_row plain_repr no_points_item = Inr (Some no_points_row) \<and>
   no_points_row ! 1 = JStr ''Fix the solver'' \<and>
   names_story_points (text_field ''Story Points'' []) \<and>
   item_row plain_repr shadowed_item = item_row plain_repr unshadowed_item"
proof -
  have five: "item_row plain_repr five_points_item = Inr (Some five_points_row)"
    by (simp add: five_points_item_def five_points_row_def eval_defs)
  have f: "first_story_points five_points_item =
             Some (JObj [(''number'', JInt 5), (''field'', JObj [(''name'', JStr ''STORY POINTS'')])]) \<and>
           map_of [(''number'', JInt 5), (''field'', JObj [(''name'', JStr ''STORY POINTS'')])] ''number'' =
             Some (JInt 5)"
    by (simp add: five_points_item_def spec_defs eval_defs)
  have float: "item_row plain_repr five_float_item = Inr (Some five_float_row)"
    by (simp add: five_float_item_def five_float_row_def eval_defs)
  have ff: "first_story_points five_float_item =
             Some (JObj [(''number'', JFloat ''5.0''), (''field'', JObj [(''name'', JStr ''Story Points'')])]) \<and>
           map_of [(''number'', JFloat ''5.0''), (''field'', JObj [(''name'', JStr ''Story Points'')])]
             ''number'' = Some (JFloat ''5.0'')"
    by (simp add: five_float_item_def spec_defs eval_defs)
  have none: "item_row plain_repr no_points_item = Inr (Some no_points_row)"
    by (simp add: no_points_item_def no_points_row_def eval_defs)
  have n: "first_story_points no_points_item = None"
    by (simp add: no_points_item_def spec_defs eval_defs)
  have m: "names_story_points (text_field ''Story Points'' [])"
    by (simp add: text_field_def names_story_points_def lower_chr_ascii)
  let ?content = "JObj [(''number'', JInt 42), (''title'', JStr ''T''), (''body'', JStr []),
                        (''url'', JStr ''https://github.com/conda/conda/issues/42''),
                        (''labels'', JObj [(''nodes'', JList [])])]"
  let ?f = "[(''nodes'', JList ([] @ text_field ''Story Points'' [] # [number_field ''story points'' (JInt 5)]))]"
  let ?f' = "[(''nodes'', JList ([] @ text_field ''Story Points'' [] # []))]"
  let ?kvs = "[(''id'', JStr ''PVTI_1''), (''fieldValues'', JObj ?f), (''content'', ?content)]"
  let ?kvs' = "[(''id'', JStr ''PVTI_1''), (''fieldValues'', JObj ?f'), (''content'', ?content)]"
  have h: "names_story_points (text_field ''Story Points'' []) \<and>
           map_of ?kvs' ''fieldValues'' = Some (JObj ?f') \<and>
           map_of ?f' ''nodes'' = Some (JList ([] @ text_field ''Story Points'' [] # [])) \<and>
           map_of ?kvs ''fieldValues'' = Some (JObj ?f) \<and>
           map_of ?f ''nodes'' =
             Some (JList ([] @ text_field ''Story Points'' [] # [number_field ''story points'' (JInt 5)])) \<and>
           map_of ?kvs ''content'' = map_of ?kvs' ''content''"
    using m by simp
  note t = title_prefix_first_name_match [of plain_repr]
  from t [of five_points_item five_points_row, THEN conjunct1, THEN mp, OF five] f
  have "five_points_row ! 1 = JStr (''[5] '' @ py_str plain_repr (title_of five_points_item))"
    by blast
  moreover from t [of five_float_item five_float_row, THEN conjunct1, THEN mp, OF float] ff
  have "five_float_row ! 1 = JStr (''[5.0] '' @ py_str plain_repr (title_of five_float_item))"
    by blast
  moreover from t [of no_points_item no_points_row, THEN conjunct1, THEN mp, OF none] n
  have "no_points_row ! 1 = title_of no_points_item"
    by blast
  moreover from t [THEN conjunct2, THEN mp, OF h]
  have "item_row plain_repr shadowed_item = item_row plain_repr unshadowed_item"
    by (simp add: shadowed_item_def unshadowed_item_def issue_item_def)
  ultimately show ?thesis
    using five float none m
    by (simp add: five_points_item_def five_float_item_def no_points_item_def spec_defs eval_defs)
qed

text \<open>
  Claim C9, as the code has it. When the first field whose lowered name is
  \<^verbatim>\<open>story points\<close> carries a number, the Title cell is prefixed with the text \<^verbatim>\<open>str\<close> gives
  for the number whenever that text is not empty: the number is turned into a string
  before the test for emptiness, so zero is not taken for empty. The integer 0 gives the
  prefix \<^verbatim>\<open>[0]\<close> and the float 0.0 the prefix \<^verbatim>\<open>[0.0]\<close>. When that field carries the empty
  text and no number, the Title cell is the bare title.
\<close>

theorem zero_points_prefix_empty_text_none:
  assumes "item_row R item = Inr (Some row)" and "first_story_points item = Some (JObj d)"
  shows "(\<forall>n. map_of d ''number'' = Some n \<and> py_str R n \<noteq> [] \<longrightarrow>
            row ! 1 = JStr (''['' @ py_str R n @ ''] '' @ py_str R (title_of item))) \<and>
         (map_of d ''number'' = Some (JInt 0) \<longrightarrow>
            row ! 1 = JStr (''[0] '' @ py_str R (title_of item))) \<and>
         (map_of d ''number'' = Some (JFloat ''0.0'') \<longrightarrow>
            row ! 1 = JStr (''[0.0] '' @ py_str R (title_of item))) \<and>
         (map_of d ''number'' = None \<and> map_of d ''text'' = Some (JStr []) \<longrightarrow>
            row ! 1 = title_of item)"
  using title_cell_format [OF assms(1)] assms(2)
  by (simp add: format_title_def story_points_of_def field_payload_def str_int_0)

text \<open>
  Claim C9 as stated gives the prefix \<^verbatim>\<open>[0]\<close> for a numeric value 0. The float 0.0 gives
  \<^verbatim>\<open>[0.0]\<close>.
\<close>

theorem float_zero_counterexample:
  "title_cell plain_repr zero_float_item = Some (JStr ''[0.0] Triage'') \<and>
   title_cell plain_repr zero_float_item \<noteq> Some (JStr ''[0] Triage'')"
  by (simp add: title_cell_def zero_float_item_def eval_defs)

theorem zero_points_prefix_empty_text_none_witness:
  "item_row plain_repr zero_points_item = Inr (Some zero_points_row) \<and>
   zero_points_row ! 1 = JStr ''[0] Triage'' \<and>
   item_row plain_repr zero_float_item = Inr (Some zero_float_row) \<and>
   zero_float_row ! 1 = JStr ''[0.0] Triage'' \<and>
   item_row plain_repr empty_text_item = Inr (Some empty_text_row) \<and>
   empty_text_row ! 1 = JStr ''Triage''"
proof -
  let ?z = "[(''number'', JInt 0), (''field'', JObj [(''name'', JStr ''Story points'')])]"
  let ?f = "[(''number'', JFloat ''0.0''), (''field'', JObj [(''name'', JStr ''Story points'')])]"
  let ?e = "[(''text'', JStr []), (''field'', JObj [(''name'', JStr ''Story points'')])]"
  have z: "item_row plain_repr zero_points_item = Inr (Some zero_points_row)"
    by (simp add: zero_points_item_def zero_points_row_def eval_defs)
  have fz: "first_story_points zero_points_item = Some (JObj ?z)"
    by (simp add: zero_points_item_def spec_defs eval_defs)
  have fl: "item_row plain_repr zero_float_item = Inr (Some zero_float_row)"
    by (simp add: zero_float_item_def zero_float_row_def eval_defs)
  have ffl: "first_story_points zero_float_item = Some (JObj ?f)"
    by (simp add: zero_float_item_def spec_defs eval_defs)
  have e: "item_row plain_repr empty_text_item = Inr (Some empty_text_row)"
    by (simp add: empty_text_item_def empty_text_row_def eval_defs)
  have fe: "first_story_points empty_text_item = Some (JObj ?e)"
    by (simp add: empty_text_item_def spec_defs eval_defs)
  from zero_points_prefix_empty_text_none [OF z fz]
  have "zero_points_row ! 1 = JStr (''[0] '' @ py_str plain_repr (title_of zero_points_item))"
    by simp
  moreover from zero_points_prefix_empty_text_none [OF fl ffl]
  have "zero_float_row ! 1 = JStr (''[0.0] '' @ py_str plain_repr (title_of zero_float_item))"
    by simp
  moreover from zero_points_prefix_empty_text_none [OF e fe]
  have "empty_text_row ! 1 = title_of empty_text_item"
    by simp
  ultimately show ?thesis
    using z fl e
    by (simp add: zero_points_item_def zero_float_item_def empty_text_item_def spec_defs eval_defs)
qed

subsection \<open>Well-formed items\<close>

lemma emap_wf_labels:
  "list_all wf_label_node nodes \<Longrightarrow> \<exists>ls. emap (\<lambda>label. getitem label ''name'') nodes = Inr ls"
proof (induction nodes)
  case Nil
  then show ?case by simp
next
  case (Cons n nodes)
  then obtain ls where ls: "emap (\<lambda>label. getitem label ''name'') nodes = Inr ls" by auto
  from Cons.prems obtain v where "getitem n ''name'' = Inr v"
    by (cases n) (auto simp: wf_label_node_def)
  with ls show ?case by simp
qed

lemma extract_labels_wf:
  assumes "wf_labels c"
  shows "\<exists>ls. extract_labels (JObj c) = Inr ls \<and> (map_of c ''labels'' = None \<longrightarrow> ls = [])"
proof (cases "map_of c ''labels''")
  case None
  then show ?thesis by (simp add: extract_labels_def)
next
  case (Some lv)
  with assms obtain l where lv: "lv = JObj l"
    by (cases lv) (simp_all add: wf_labels_def)
  show ?thesis
  proof (cases "map_of l ''nodes''")
    case None
    with Some lv show ?thesis by (simp add: extract_labels_def)
  next
    case nodes: (Some nv)
    show ?thesis
    proof (cases "truthy nv")
      case False
      with Some lv nodes show ?thesis by (simp add: extract_labels_def)
    next
      case True
      with assms Some lv nodes obtain ns where nv: "nv = JList ns" and wf: "list_all wf_label_node ns"
        by (cases nv) (simp_all add: wf_labels_def)
      from emap_wf_labels [OF wf] Some lv nodes nv True show ?thesis
        by (auto simp: extract_labels_def)
    qed
  qed
qed

lemma story_points_loop_wf:
  "list_all wf_field_value fvs \<Longrightarrow> \<exists>sp. story_points_loop R fvs = Inr sp"
proof (induction fvs)
  case Nil
  then show ?case by simp
next
  case (Cons fv fvs)
  then obtain sp where sp: "story_points_loop R fvs = Inr sp" by auto
  from Cons.prems obtain d where fv: "fv = JObj d"
    by (cases fv) (simp_all add: wf_field_value_def)
  from Cons.prems fv obtain field_info where fi: "entry d ''field'' (JObj []) = JObj field_info"
    by (auto simp: wf_field_value_def entry_def split: option.splits pyval.splits)
  from Cons.prems fv fi obtain name where "entry field_info ''name'' (JStr []) = JStr name"
    by (auto simp: wf_field_value_def entry_def split: option.splits pyval.splits)
  with fv fi sp show ?case by (simp add: story_points_loop_JObj del: story_points_loop.simps)
qed

lemma extract_story_points_wf:
  assumes "wf_field_values kvs"
  shows "\<exists>sp. extract_story_points R (JObj kvs) = Inr sp \<and>
              (map_of kvs ''fieldValues'' = None \<longrightarrow> sp = JStr [])"
proof (cases "map_of kvs ''fieldValues''")
  case None
  then show ?thesis by (simp add: extract_story_points_def)
next
  case (Some fv)
  with assms obtain f where f: "fv = JObj f"
    by (cases fv) (simp_all add: wf_field_values_def)
  show ?thesis
  proof (cases "map_of f ''nodes''")
    case None
    with Some f show ?thesis by (simp add: extract_story_points_def)
  next
    case nodes: (Some nv)
    with assms Some f obtain fvs where nv: "nv = JList fvs" and wf: "list_all wf_field_value fvs"
      by (cases nv) (simp_all add: wf_field_values_def)
    from story_points_loop_wf [OF wf, of R] Some f nodes nv show ?thesis
      by (auto simp: extract_story_points_def)
  qed
qed

lemma body_of_wf:
  assumes "wf_body c"
  shows "\<exists>s. body_of c = JStr s \<and>
             (map_of c ''body'' = None \<or> map_of c ''body'' = Some JNull \<longrightarrow> s = [])"
proof (cases "map_of c ''body''")
  case None
  then show ?thesis by (simp add: body_of_def entry_def)
next
  case (Some b)
  with assms show ?thesis
    by (cases b) (auto simp: wf_body_def body_of_def entry_def)
qed

lemma item_row_wf_content:
  assumes c: "map_of kvs ''content'' = Some (JObj c)" and ne: "c \<noteq> []"
    and wf: "wf_labels c" "wf_body c" "wf_field_values kvs"
  shows "\<exists>row. item_row R (JObj kvs) = Inr (Some row) \<and> length row = 6 \<and>
           (map_of c ''labels'' = None \<longrightarrow> row ! 0 = JStr ''Story'') \<and>
           (map_of kvs ''fieldValues'' = None \<longrightarrow> row ! 1 = entry c ''title'' (JStr [])) \<and>
           (map_of c ''number'' = None \<longrightarrow> row ! 2 = JStr []) \<and>
           (map_of c ''url'' = None \<longrightarrow> row ! 3 = JStr []) \<and>
           (map_of c ''body'' = None \<or> map_of c ''body'' = Some JNull \<longrightarrow> row ! 4 = JStr []) \<and>
           row ! 5 = JStr []"
proof -
  from extract_labels_wf [OF wf(1)] obtain ls where
    ls: "extract_labels (JObj c) = Inr ls" "map_of c ''labels'' = None \<longrightarrow> ls = []" by auto
  from extract_story_points_wf [OF wf(3), of R] obtain sp where
    sp: "extract_story_points R (JObj kvs) = Inr sp" "map_of kvs ''fieldValues'' = None \<longrightarrow> sp = JStr []"
    by auto
  from body_of_wf [OF wf(2)] obtain s where
    s: "body_of c = JStr s" "map_of c ''body'' = None \<or> map_of c ''body'' = Some JNull \<longrightarrow> s = []"
    by auto
  have e: "entry kvs ''content'' JNull = JObj c" using c by (simp add: entry_def)
  have "item_row R (JObj kvs) =
          Inr (Some [JStr (issue_type ls),
                     format_title R sp (entry c ''title'' (JStr [])),
                     JStr (py_str R (entry c ''number'' (JStr []))),
                     entry c ''url'' (JStr []),
                     JStr (blank_line_breaks s),
                     JStr []])"
    using e ne ls(1) sp(1) s(1)
    by (simp add: item_row_JObj clean_newlines_blank del: clean_newlines.simps)
  moreover have "map_of c ''labels'' = None \<longrightarrow> issue_type ls = ''Story''"
    using ls(2) by (simp add: issue_type_def)
  moreover have "map_of kvs ''fieldValues'' = None \<longrightarrow>
                   format_title R sp (entry c ''title'' (JStr [])) = entry c ''title'' (JStr [])"
    using sp(2) by (simp add: format_title_def)
  moreover have "map_of c ''number'' = None \<longrightarrow> py_str R (entry c ''number'' (JStr [])) = []"
    by (simp add: entry_def)
  moreover have "map_of c ''url'' = None \<longrightarrow> entry c ''url'' (JStr []) = JStr []"
    by (simp add: entry_def)
  moreover have "map_of c ''body'' = None \<or> map_of c ''body'' = Some JNull \<longrightarrow> blank_line_breaks s = []"
    using s(2) by (auto simp: blank_line_breaks_def)
  ultimately show ?thesis by simp
qed

lemma item_row_no_content:
  "\<not> has_content (JObj kvs) \<Longrightarrow> item_row R (JObj kvs) = Inr None"
  by (simp add: has_content_def item_row_JObj)

lemma item_row_None_iff:
  assumes "item_row R item = Inr r"
  shows "r = None \<longleftrightarrow> \<not> has_content item"
proof -
  from assms obtain kvs where item: "item = JObj kvs"
    by (cases item) (simp_all add: item_row_def)
  with assms show ?thesis
    by (cases "entry kvs ''content'' JNull")
       (auto simp: item_row_JObj has_content_def ebind_eq_Inr split: if_splits)
qed

lemma item_row_wf:
  assumes "wf_item item"
  shows "\<exists>r. item_row R item = Inr r"
proof -
  from assms obtain kvs where item: "item = JObj kvs"
    by (cases item) (simp_all add: wf_item_def)
  show ?thesis
  proof (cases "has_content item")
    case False
    with item show ?thesis by (simp add: item_row_no_content)
  next
    case True
    with assms item obtain c where c: "entry kvs ''content'' JNull = JObj c" and ne: "c \<noteq> []"
      and wf: "wf_labels c" "wf_body c" "wf_field_values kvs"
      by (cases "entry kvs ''content'' JNull") (auto simp: wf_item_def has_content_def)
    from c ne have "map_of kvs ''content'' = Some (JObj c)"
      by (auto simp: entry_def split: option.splits)
    from item_row_wf_content [OF this ne wf, of R] item show ?thesis by blast
  qed
qed

subsection \<open>The loop over the items\<close>

lemma rows_loop_acc:
  "rows_loop R items acc = Inr rows \<Longrightarrow>
   \<exists>new. rows = acc @ new \<and>
         map (item_row R) (filter has_content items) = map (\<lambda>row. Inr (Some row)) new"
proof (induction items arbitrary: acc)
  case Nil
  then show ?case by simp
next
  case (Cons item items)
  show ?case
  proof (cases "item_row R item")
    case (Inl e)
    with Cons.prems show ?thesis by simp
  next
    case (Inr r)
    show ?thesis
    proof (cases r)
      case None
      with Inr have "\<not> has_content item" using item_row_None_iff [of R item r] by simp
      moreover from Cons.prems Inr None have "rows_loop R items acc = Inr rows" by simp
      ultimately show ?thesis using Cons.IH by simp
    next
      case (Some row)
      with Inr have c: "has_content item" using item_row_None_iff [of R item r] by simp
      from Cons.prems Inr Some have "rows_loop R items (acc @ [row]) = Inr rows" by simp
      from Cons.IH [OF this] obtain new where
        "rows = (acc @ [row]) @ new"
        "map (item_row R) (filter has_content items) = map (\<lambda>row. Inr (Some row)) new"
        by blast
      with c Inr Some have
        "rows = acc @ (row # new) \<and>
         map (item_row R) (filter has_content (item # items)) = map (\<lambda>row. Inr (Some row)) (row # new)"
        by simp
      then show ?thesis by blast
    qed
  qed
qed

lemma rows_loop_wf:
  "list_all wf_item items \<Longrightarrow> \<exists>rows. rows_loop R items acc = Inr rows"
proof (induction items arbitrary: acc)
  case Nil
  then show ?case by simp
next
  case (Cons item items)
  from Cons.prems item_row_wf [of item R] obtain r where "item_row R item = Inr r" by auto
  with Cons show ?case by (cases r) simp_all
qed

lemmas wf_defs =
  wf_item_def wf_labels_def wf_body_def wf_field_values_def wf_field_value_def
  wf_label_node_def has_content_def

text \<open>
  Claim C5. The Flattener drops exactly the items without content and gives one row for
  each other item, in the order of the items: when it returns, the rows are the rows of
  the items with content, one for one and in order, so their number is the number of
  items less the number of items without content; and on well-formed items it returns.
  An item is without content when \<^verbatim>\<open>item.get("content")\<close> is falsy: the key is missing,
  the value is null, or it is the empty mapping that the query leaves of a draft issue.
\<close>

theorem rows_for_items_with_content:
  "(process_items_to_csv_rows R items = Inr rows \<longrightarrow>
      length rows = length items - length (filter (\<lambda>item. \<not> has_content item) items) \<and>
      map (item_row R) (filter has_content items) = map (\<lambda>row. Inr (Some row)) rows) \<and>
   (list_all wf_item items \<longrightarrow> (\<exists>rows'. process_items_to_csv_rows R items = Inr rows'))"
proof (intro conjI impI)
  assume "process_items_to_csv_rows R items = Inr rows"
  then have m: "map (item_row R) (filter has_content items) = map (\<lambda>row. Inr (Some row)) rows"
    using rows_loop_acc [of R items "[]" rows] by (simp add: process_items_to_csv_rows_def)
  then show "map (item_row R) (filter has_content items) = map (\<lambda>row. Inr (Some row)) rows" .
  from m have "length (filter has_content items) = length rows"
    by (metis length_map)
  with sum_length_filter_compl [of has_content items]
  show "length rows = length items - length (filter (\<lambda>item. \<not> has_content item) items)"
    by simp
next
  assume "list_all wf_item items"
  then show "\<exists>rows'. process_items_to_csv_rows R items = Inr rows'"
    by (simp add: process_items_to_csv_rows_def rows_loop_wf)
qed

theorem rows_for_items_with_content_witness:
  "process_items_to_csv_rows plain_repr [epic_item, draft_item, five_points_item, redacted_item] =
     Inr [epic_row, five_points_row] \<and>
   list_all wf_item [epic_item, draft_item, five_points_item, redacted_item] \<and>
   length [epic_row, five_points_row] =
     length [epic_item, draft_item, five_points_item, redacted_item] -
     length (filter (\<lambda>item. \<not> has_content item) [epic_item, draft_item, five_points_item, redacted_item]) \<and>
   filter has_content [epic_item, draft_item, five_points_item, redacted_item] = [epic_item, five_points_item]"
proof -
  let ?items = "[epic_item, draft_item, five_points_item, redacted_item]"
  have run: "process_items_to_csv_rows plain_repr ?items = Inr [epic_row, five_points_row]"
    by (simp add: process_items_to_csv_rows_def epic_item_def draft_item_def five_points_item_def
          redacted_item_def epic_row_def five_points_row_def eval_defs)
  have wf: "list_all wf_item ?items"
    by (simp add: epic_item_def draft_item_def five_points_item_def redacted_item_def
          issue_item_def number_field_def entry_def wf_defs)
  have f: "filter has_content ?items = [epic_item, five_points_item]"
    by (simp add: epic_item_def draft_item_def five_points_item_def redacted_item_def
          issue_item_def entry_def has_content_def)
  from rows_for_items_with_content [of plain_repr ?items "[epic_row, five_points_row]"] run wf f
  show ?thesis by simp
qed

lemma item_row_missing_entries:
  assumes "map_of kvs ''content'' = Some (JObj c) \<and> c \<noteq> [] \<and>
           wf_labels c \<and> wf_body c \<and> wf_field_values kvs"
  shows "\<exists>row. item_row R (JObj kvs) = Inr (Some row) \<and> length row = 6 \<and>
         (map_of c ''labels'' = None \<longrightarrow> row ! 0 = JStr ''Story'') \<and>
         (map_of kvs ''fieldValues'' = None \<longrightarrow> row ! 1 = entry c ''title'' (JStr [])) \<and>
         (map_of kvs ''fieldValues'' = None \<and> map_of c ''title'' = None \<longrightarrow> row ! 1 = JStr []) \<and>
         (map_of c ''number'' = None \<longrightarrow> row ! 2 = JStr []) \<and>
         (map_of c ''url'' = None \<longrightarrow> row ! 3 = JStr []) \<and>
         (map_of c ''body'' = None \<or> map_of c ''body'' = Some JNull \<longrightarrow> row ! 4 = JStr []) \<and>
         row ! 5 = JStr []"
proof -
  from assms have c: "map_of kvs ''content'' = Some (JObj c)" and ne: "c \<noteq> []"
    and wf: "wf_labels c" "wf_body c" "wf_field_values kvs"
    by simp_all
  from item_row_wf_content [OF c ne wf, of R] obtain row where
    row: "item_row R (JObj kvs) = Inr (Some row) \<and> length row = 6 \<and>
           (map_of c ''labels'' = None \<longrightarrow> row ! 0 = JStr ''Story'') \<and>
           (map_of kvs ''fieldValues'' = None \<longrightarrow> row ! 1 = entry c ''title'' (JStr [])) \<and>
           (map_of c ''number'' = None \<longrightarrow> row ! 2 = JStr []) \<and>
           (map_of c ''url'' = None \<longrightarrow> row ! 3 = JStr []) \<and>
           (map_of c ''body'' = None \<or> map_of c ''body'' = Some JNull \<longrightarrow> row ! 4 = JStr []) \<and>
           row ! 5 = JStr []" ..
  then have "map_of kvs ''fieldValues'' = None \<and> map_of c ''title'' = None \<longrightarrow> row ! 1 = JStr []"
    by (simp add: entry_def)
  with row show ?thesis by (intro exI [of _ row]) simp
qed

text \<open>
  Claim C10, as the code has it. For an item whose content is a non-empty mapping, with
  \<^verbatim>\<open>labels\<close> and \<^verbatim>\<open>fieldValues\<close> missing or well-formed and \<^verbatim>\<open>body\<close> missing, null or a
  string, the loop body raises nothing and gives a row of six cells: Type \<^verbatim>\<open>Story\<close> for
  missing labels, the bare title for missing field values, and the empty string for a
  missing number, title or url and for a missing or null body. An item whose content is
  missing, null or the empty mapping is dropped.
\<close>

theorem missing_entries_default:
  "(map_of kvs ''content'' = Some (JObj c) \<and> c \<noteq> [] \<and>
    wf_labels c \<and> wf_body c \<and> wf_field_values kvs \<longrightarrow>
      (\<exists>row. item_row R (JObj kvs) = Inr (Some row) \<and> length row = 6 \<and>
         (map_of c ''labels'' = None \<longrightarrow> row ! 0 = JStr ''Story'') \<and>
         (map_of kvs ''fieldValues'' = None \<longrightarrow> row ! 1 = entry c ''title'' (JStr [])) \<and>
         (map_of kvs ''fieldValues'' = None \<and> map_of c ''title'' = None \<longrightarrow> row ! 1 = JStr []) \<and>
         (map_of c ''number'' = None \<longrightarrow> row ! 2 = JStr []) \<and>
         (map_of c ''url'' = None \<longrightarrow> row ! 3 = JStr []) \<and>
         (map_of c ''body'' = None \<or> map_of c ''body'' = Some JNull \<longrightarrow> row ! 4 = JStr []) \<and>
         row ! 5 = JStr [])) \<and>
   (map_of kvs ''content'' = None \<or> map_of kvs ''content'' = Some JNull \<or>
    map_of kvs ''content'' = Some (JObj []) \<longrightarrow>
      item_row R (JObj kvs) = Inr None)"
proof (rule conjI)
  show "map_of kvs ''content'' = None \<or> map_of kvs ''content'' = Some JNull \<or>
        map_of kvs ''content'' = Some (JObj []) \<longrightarrow> item_row R (JObj kvs) = Inr None"
    by (auto simp: item_row_JObj entry_def)
qed (rule impI, rule item_row_missing_entries)

theorem missing_entries_default_witness:
  "(\<exists>row. item_row plain_repr bare_item = Inr (Some row) \<and> length row = 6 \<and>
      row ! 0 = JStr ''Story'' \<and> row ! 1 = JStr [] \<and> row ! 2 = JStr [] \<and> row ! 3 = JStr [] \<and>
      row ! 4 = JStr [] \<and> row ! 5 = JStr []) \<and>
   item_row plain_repr draft_item = Inr None \<and>
   item_row plain_repr redacted_item = Inr None"
proof -
  let ?c = "[(''body'', JNull), (''__typename'', JStr ''Issue'')]"
  let ?kvs = "[(''content'', JObj ?c)]"
  let ?d = "[(''id'', JStr ''PVTI_2''), (''fieldValues'', JObj [(''nodes'', JList [JObj []])]),
             (''content'', JObj [])]"
  let ?r = "[(''id'', JStr ''PVTI_3''), (''content'', JNull)]"
  have h: "map_of ?kvs ''content'' = Some (JObj ?c) \<and> ?c \<noteq> [] \<and>
           wf_labels ?c \<and> wf_body ?c \<and> wf_field_values ?kvs"
    by (simp add: wf_defs)
  from missing_entries_default [of ?kvs ?c plain_repr, THEN conjunct1, THEN mp, OF h]
  have bare: "\<exists>row. item_row plain_repr bare_item = Inr (Some row) \<and> length row = 6 \<and>
      row ! 0 = JStr ''Story'' \<and> row ! 1 = JStr [] \<and> row ! 2 = JStr [] \<and> row ! 3 = JStr [] \<and>
      row ! 4 = JStr [] \<and> row ! 5 = JStr []"
    by (simp add: bare_item_def) blast
  have d: "map_of ?d ''content'' = None \<or> map_of ?d ''content'' = Some JNull \<or>
           map_of ?d ''content'' = Some (JObj [])"
    by simp
  have r: "map_of ?r ''content'' = None \<or> map_of ?r ''content'' = Some JNull \<or>
           map_of ?r ''content'' = Some (JObj [])"
    by simp
  from missing_entries_default [of ?d "[]" plain_repr, THEN conjunct2, THEN mp, OF d]
  have draft: "item_row plain_repr draft_item = Inr None"
    by (simp add: draft_item_def)
  from missing_entries_default [of ?r "[]" plain_repr, THEN conjunct2, THEN mp, OF r]
  have red: "item_row plain_repr redacted_item = Inr None"
    by (simp add: redacted_item_def)
  from bare draft red show ?thesis by (intro conjI)
qed

text \<open>
  Claim C10 as stated also covers entries that are present and null. A null \<^verbatim>\<open>labels\<close>
  entry raises (\<^verbatim>\<open>None\<close> has no \<^verbatim>\<open>get\<close>), and a null \<^verbatim>\<open>number\<close> gives the cell \<^verbatim>\<open>None\<close>,
  not the empty string.
\<close>

theorem null_entries_counterexample:
  "process_items_to_csv_rows plain_repr [null_labels_item] = Inl AttributeError \<and>
   process_items_to_csv_rows plain_repr [null_number_item] =
     Inr [[JStr ''Story'', JStr ''T'', JStr ''None'', JStr [], JStr [], JStr []]]"
  by (simp add: process_items_to_csv_rows_def null_labels_item_def null_number_item_def eval_defs)

subsection \<open>The Paginator\<close>

lemma read_page_page_data:
  "read_page (page_data nodes has_next end_cursor) =
     Inr (nodes, if has_next then Some end_cursor else None)"
  by (simp add: read_page_def page_data_def)

lemma fetch_loop_mock:
  "pages \<noteq> [] \<Longrightarrow>
   fetch_loop mock_request org n cursor acc \<lparr>responses = paged_responses pages @ rest, calls = cs\<rparr> =
     Some (Inr (acc @ concat (map fst pages)),
           \<lparr>responses = rest,
            calls = cs @ map (\<lambda>c. (items_query, variables org n c)) (cursor # map snd (butlast pages))\<rparr>)"
proof (induction pages arbitrary: cursor acc cs rule: paged_responses.induct)
  case 1
  then show ?case by simp
next
  case (2 nodes c)
  show ?case
    by (subst fetch_loop.simps) (simp add: mock_request_def read_page_page_data)
next
  case (3 nodes c p ps)
  have "fetch_loop mock_request org n cursor acc
          \<lparr>responses = paged_responses ((nodes, c) # p # ps) @ rest, calls = cs\<rparr> =
        fetch_loop mock_request org n c (acc @ nodes)
          \<lparr>responses = paged_responses (p # ps) @ rest,
           calls = cs @ [(items_query, variables org n cursor)]\<rparr>"
    by (subst fetch_loop.simps) (simp add: mock_request_def read_page_page_data)
  also have "\<dots> = Some (Inr ((acc @ nodes) @ concat (map fst (p # ps))),
           \<lparr>responses = rest,
            calls = (cs @ [(items_query, variables org n cursor)]) @
              map (\<lambda>c. (items_query, variables org n c)) (c # map snd (butlast (p # ps)))\<rparr>)"
    by (rule "3.IH") simp
  finally show ?case by simp
qed

lemma line_in_text:
  assumes "l \<in> set ls"
  shows "\<exists>ps ss. concat (map (\<lambda>l. l @ [newline]) ls) = ps @ l @ ss"
proof -
  from assms obtain as bs where "ls = as @ l # bs" by (auto dest: split_list)
  then have "concat (map (\<lambda>l. l @ [newline]) ls) =
               concat (map (\<lambda>l. l @ [newline]) as) @ l @ (newline # concat (map (\<lambda>l. l @ [newline]) bs))"
    by simp
  then show ?thesis by blast
qed

lemma page_size_in_query: "sublist ''items(first: 100, after: $cursor)'' items_query"
proof -
  let ?l = "''                  items(first: 100, after: $cursor) {''"
  have "?l \<in> set query_lines" by (simp add: query_lines_def)
  then obtain ps ss where "concat (map (\<lambda>l. l @ [newline]) query_lines) = ps @ ?l @ ss"
    by (auto dest: line_in_text)
  then have "items_query =
               (newline # ps @ ''                  '') @ ''items(first: 100, after: $cursor)'' @
               ('' {'' @ ss @ replicate 12 CHR '' '')"
    by (simp add: items_query_def)
  then show ?thesis unfolding sublist_def by blast
qed

lemma nodes_append: "i \<le> j \<Longrightarrow> j \<le> k \<Longrightarrow> map node [i..<j] @ map node [j..<k] = map node [i..<k]"
  by (metis le_Suc_ex map_append upt_add_eq_append)

text \<open>
  Claim C1. Against a mock transport that serves a run of pages, of which every page but
  the last announces a next page, \<^verbatim>\<open>get_all_project_items\<close> returns: its result is the
  nodes of all pages in the order served; it makes one call per page and none after the
  page without a next page; the variables of every call are the mapping of \<^verbatim>\<open>org\<close>,
  \<^verbatim>\<open>number\<close> and \<^verbatim>\<open>cursor\<close>, where the cursor is absent in the first call and the end
  cursor of the page before in every later call; and each call sends the query document,
  which asks for \<^verbatim>\<open>items(first: 100, after: $cursor)\<close>. Pages of 100, 100 and 7 items give 207
  items after three calls.
\<close>

theorem paginator_enumerates_pages:
  assumes "pages \<noteq> []"
  shows "get_all_project_items mock_request org n
           \<lparr>responses = paged_responses pages @ rest, calls = []\<rparr> =
         Some (Inr (concat (map fst pages)),
               \<lparr>responses = rest,
                calls =
                  map (\<lambda>cursor.
                         (items_query,
                          JObj [(''org'', JStr org), (''number'', JInt n), (''cursor'', cursor)]))
                    (JNull # map snd (butlast pages))\<rparr>) \<and>
         sublist ''items(first: 100, after: $cursor)'' items_query"
  using fetch_loop_mock [OF assms, of org n JNull "[]" rest "[]"] page_size_in_query
  by (simp add: get_all_project_items_def variables_def)

theorem paginator_enumerates_pages_witness:
  "three_pages \<noteq> [] \<and>
   map (length \<circ> fst) three_pages = [100, 100, 7] \<and>
   get_all_project_items mock_request ''conda'' 22 \<lparr>responses = paged_responses three_pages, calls = []\<rparr> =
     Some (Inr (map node [0..<207]),
           \<lparr>responses = [],
            calls =
              [(items_query,
                JObj [(''org'', JStr ''conda''), (''number'', JInt 22), (''cursor'', JNull)]),
               (items_query,
                JObj [(''org'', JStr ''conda''), (''number'', JInt 22),
                      (''cursor'', JStr ''Y3Vyc29yOjEwMA=='')]),
               (items_query,
                JObj [(''org'', JStr ''conda''), (''number'', JInt 22),
                      (''cursor'', JStr ''Y3Vyc29yOjIwMA=='')])]\<rparr>) \<and>
   length (map node [0..<207]) = 207"
proof -
  have ne: "three_pages \<noteq> []" by (simp add: three_pages_def)
  have "concat (map fst three_pages) =
          map node [0..<100] @ map node [100..<200] @ map node [200..<207]"
    by (simp only: three_pages_def list.map concat.simps fst_conv append_Nil2)
  also have "\<dots> = map node [0..<100] @ map node [100..<207]"
    by (simp only: nodes_append [of 100 200 207])
  also have "\<dots> = map node [0..<207]"
    by (simp only: nodes_append [of 0 100 207])
  finally have c: "concat (map fst three_pages) = map node [0..<207]" .
  have b: "JNull # map snd (butlast three_pages) =
             [JNull, JStr ''Y3Vyc29yOjEwMA=='', JStr ''Y3Vyc29yOjIwMA=='']"
    by (simp add: three_pages_def)
  have l: "map (length \<circ> fst) three_pages = [100, 100, 7]"
    by (simp add: three_pages_def)
  from paginator_enumerates_pages [OF ne, of "''conda''" 22 "[]"] ne l
  show ?thesis by (simp add: c b)
qed

subsection \<open>The Transport Adapter\<close>

lemma make_graphql_request_Exited:
  assumes "gh E (history w @ [graphql_invocation E query vars]) = Exited returncode out err"
  shows "make_graphql_request E query vars w =
           (if returncode \<noteq> 0 then Inl (Exception (''gh CLI request failed: '' @ err))
            else parse_response E out,
            w\<lparr>history := history w @ [graphql_invocation E query vars]\<rparr>)"
  using assms
  by (simp add: make_graphql_request_def subprocess_run_def graphql_invocation_def Let_def)

text \<open>
  Claim C7. When the external process exits, \<^verbatim>\<open>_make_graphql_request\<close> raises an exception
  whose message ends with the tool's diagnostics if the return code is not zero; raises
  one that carries the decoder's message if the output does not parse; raises one that
  carries the text of the error list if the parsed response has an \<^verbatim>\<open>errors\<close> entry; and
  otherwise returns the \<^verbatim>\<open>data\<close> entry of the parsed response as it is.
\<close>

theorem query_outcomes:
  assumes "gh E (history w @ [graphql_invocation E query vars]) = Exited returncode out err"
  shows "(returncode \<noteq> 0 \<longrightarrow>
            fst (make_graphql_request E query vars w) =
              Inl (Exception (''gh CLI request failed: '' @ err))) \<and>
         (returncode = 0 \<and> json_loads E out = Inl msg \<longrightarrow>
            fst (make_graphql_request E query vars w) =
              Inl (Exception (''Failed to parse GraphQL response: '' @ msg))) \<and>
         (returncode = 0 \<and> json_loads E out = Inr (JObj d) \<and> map_of d ''errors'' = Some errs \<longrightarrow>
            fst (make_graphql_request E query vars w) =
              Inl (Exception (''GraphQL errors: '' @ py_str (py_repr E) errs))) \<and>
         (returncode = 0 \<and> json_loads E out = Inr (JObj d) \<and> map_of d ''errors'' = None \<and>
          map_of d ''data'' = Some v \<longrightarrow>
            fst (make_graphql_request E query vars w) = Inr v)"
  by (simp add: make_graphql_request_Exited [OF assms] parse_response_def)

lemmas env_defs =
  example_env_def scripted_gh_def example_loads_def errors_text_def viewer_text_def
  first_page_text_def page_text_def
  errors_response_def viewer_response_def quoted_def fresh_world_def graphql_invocation_def

theorem query_outcomes_witness:
  "fst (make_graphql_request (example_env [Exited 1 [] ''HTTP 401: Bad credentials''])
          items_query (variables ''conda'' 22 JNull) fresh_world) =
     Inl (Exception ''gh CLI request failed: HTTP 401: Bad credentials'') \<and>
   fst (make_graphql_request (example_env [Exited 0 ''<html>'' []])
          items_query (variables ''conda'' 22 JNull) fresh_world) =
     Inl (Exception (''Failed to parse GraphQL response: '' @ decode_message)) \<and>
   fst (make_graphql_request (example_env [Exited 0 errors_text []])
          items_query (variables ''conda'' 22 JNull) fresh_world) =
     Inl (Exception (''GraphQL errors: '' @ plain_repr (JList [JObj [(''type'', JStr ''NOT_FOUND'')]]))) \<and>
   fst (make_graphql_request (example_env [Exited 0 viewer_text []])
          items_query (variables ''conda'' 22 JNull) fresh_world) =
     Inr (JObj [(''viewer'', JNull)])"
proof -
  let ?q = "items_query" and ?v = "variables ''conda'' 22 JNull"
  let ?E1 = "example_env [Exited 1 [] ''HTTP 401: Bad credentials'']"
  let ?E2 = "example_env [Exited 0 ''<html>'' []]"
  let ?E3 = "example_env [Exited 0 errors_text []]"
  let ?E4 = "example_env [Exited 0 viewer_text []]"
  have g1: "gh ?E1 (history fresh_world @ [graphql_invocation ?E1 ?q ?v]) =
              Exited 1 [] ''HTTP 401: Bad credentials''"
    by (simp add: example_env_def scripted_gh_def fresh_world_def)
  have g2: "gh ?E2 (history fresh_world @ [graphql_invocation ?E2 ?q ?v]) = Exited 0 ''<html>'' []"
    by (simp add: example_env_def scripted_gh_def fresh_world_def)
  have l2: "json_loads ?E2 ''<html>'' = Inl decode_message"
    by (simp add: env_defs)
  have g3: "gh ?E3 (history fresh_world @ [graphql_invocation ?E3 ?q ?v]) = Exited 0 errors_text []"
    by (simp add: example_env_def scripted_gh_def fresh_world_def)
  have l3: "json_loads ?E3 errors_text = Inr (JObj [(''errors'', JList [JObj [(''type'', JStr ''NOT_FOUND'')]])]) \<and>
            map_of [(''errors'', JList [JObj [(''type'', JStr ''NOT_FOUND'')]])] ''errors'' =
              Some (JList [JObj [(''type'', JStr ''NOT_FOUND'')]])"
    by (simp add: example_env_def example_loads_def errors_response_def)
  have g4: "gh ?E4 (history fresh_world @ [graphql_invocation ?E4 ?q ?v]) = Exited 0 viewer_text []"
    by (simp add: example_env_def scripted_gh_def fresh_world_def)
  have l4: "json_loads ?E4 viewer_text = Inr (JObj [(''data'', JObj [(''viewer'', JNull)])]) \<and>
            map_of [(''data'', JObj [(''viewer'', JNull)])] ''errors'' = None \<and>
            map_of [(''data'', JObj [(''viewer'', JNull)])] ''data'' = Some (JObj [(''viewer'', JNull)])"
    by (simp add: env_defs)
  have p3: "py_repr ?E3 = plain_repr" by (simp add: example_env_def)
  from query_outcomes [OF g1] query_outcomes [OF g2, of decode_message] l2
    query_outcomes [OF g3, of _ "[(''errors'', JList [JObj [(''type'', JStr ''NOT_FOUND'')]])]"
      "JList [JObj [(''type'', JStr ''NOT_FOUND'')]]"] l3 p3
    query_outcomes [OF g4, of _ "[(''data'', JObj [(''viewer'', JNull)])]" _ "JObj [(''viewer'', JNull)]"] l4
  show ?thesis by simp
qed

subsection \<open>The Orchestrator\<close>

lemma fetch_fails_loop:
  "fetch_fails request org n cursor s e s' \<Longrightarrow>
   fetch_loop request org n cursor all_items s = Some (Inl e, s')"
proof (induction arbitrary: all_items rule: fetch_fails.induct)
  case (this_page cursor s e s')
  then show ?case by (subst fetch_loop.simps) simp
next
  case (later_page cursor s data s1 new_items end_cursor e s')
  then show ?case by (subst fetch_loop.simps) simp
qed

lemma make_graphql_request_files [simp]:
  "files (snd (make_graphql_request E query vars w)) = files w"
  by (simp add: make_graphql_request_def subprocess_run_def Let_def split: proc_outcome.splits)

lemma fetch_fails_files:
  "fetch_fails (make_graphql_request E) org n cursor w e w' \<Longrightarrow> files w' = files w"
proof (induction rule: fetch_fails.induct)
  case (this_page cursor s e s')
  from make_graphql_request_files [of E items_query "variables org n cursor" s] this_page
  show ?case by simp
next
  case (later_page cursor s data s1 new_items end_cursor e s')
  from make_graphql_request_files [of E items_query "variables org n cursor" s] later_page
  show ?case by simp
qed

lemma verify_gh_auth_files [simp]: "files (snd (verify_gh_auth E w)) = files w"
  by (simp add: verify_gh_auth_def subprocess_run_def print_def Let_def split: proc_outcome.splits)

lemma export_to_csv_fetch_fails:
  assumes "fetch_fails (make_graphql_request E) org n JNull (print (fetching_line org n) w) e w'"
  shows "export_to_csv E org n output_file w = Some (Inl e, w')"
  using fetch_fails_loop [OF assms, of "[]"]
  by (simp add: export_to_csv_def get_all_project_items_def fetching_line_def Let_def)

text \<open>
  Claim C6. When a page fetch fails, after any number of pages that were fetched and
  announced a next page, the Paginator raises that same exception, \<^verbatim>\<open>export_to_csv\<close>
  raises it too, \<^verbatim>\<open>main\<close> prints it and ends the process with status 1, and no file has
  been written.
\<close>

theorem page_failure_aborts_export:
  assumes "verify_gh_auth E w = (Inr u, w1)"
    and "fetch_fails (make_graphql_request E) ''conda'' 22 JNull
           (print (fetching_line ''conda'' 22) w1) e w2"
  shows "get_all_project_items (make_graphql_request E) ''conda'' 22
           (print (fetching_line ''conda'' 22) w1) = Some (Inl e, w2) \<and>
         export_to_csv E ''conda'' 22 ''conda_project_issues.csv'' w1 = Some (Inl e, w2) \<and>
         main E w = Some (1, print (ErrorLine e) w2) \<and>
         files (print (ErrorLine e) w2) = files w"
proof -
  have "files w1 = files w"
    using verify_gh_auth_files [of E w] assms(1) by simp
  moreover have "files w2 = files w1"
    using fetch_fails_files [OF assms(2)] by (simp add: print_def)
  ultimately have "files (print (ErrorLine e) w2) = files w"
    by (simp add: print_def)
  moreover have "get_all_project_items (make_graphql_request E) ''conda'' 22
           (print (fetching_line ''conda'' 22) w1) = Some (Inl e, w2)"
    using fetch_fails_loop [OF assms(2)] by (simp add: get_all_project_items_def)
  moreover note x = export_to_csv_fetch_fails [OF assms(2), of "''conda_project_issues.csv''"]
  moreover have "main E w = Some (1, print (ErrorLine e) w2)"
    using assms(1) x by (simp add: main_def)
  ultimately show ?thesis by simp
qed

lemma page_texts_differ:
  "first_page_text \<noteq> errors_text" "first_page_text \<noteq> viewer_text"
  by (simp_all add: first_page_text_def errors_text_def viewer_text_def page_text_def quoted_def)

lemma example_loads_pages:
  "example_loads first_page_text = Inr first_page_response"
  by (simp add: example_loads_def page_texts_differ)

lemma parse_example_pages:
  "parse_response (example_env outcomes) first_page_text = Inr (page_data [] True (JStr ''Mg''))"
  by (simp add: parse_response_def example_env_def example_loads_pages first_page_response_def)

lemma request_example_env:
  assumes "length (history w) < length outcomes"
    and "outcomes ! length (history w) = Exited returncode out err"
  shows "make_graphql_request (example_env outcomes) query vars w =
           (if returncode \<noteq> 0 then Inl (Exception (''gh CLI request failed: '' @ err))
            else parse_response (example_env outcomes) out,
            w\<lparr>history := history w @ [graphql_invocation (example_env outcomes) query vars]\<rparr>)"
proof (rule make_graphql_request_Exited)
  from assms
  show "gh (example_env outcomes)
          (history w @ [graphql_invocation (example_env outcomes) query vars]) =
        Exited returncode out err"
    by (simp add: example_env_def scripted_gh_def)
qed

theorem page_failure_aborts_export_witness:
  "\<exists>w'. main failing_env fresh_world = Some (1, w') \<and> files w' = Map.empty \<and>
        last (console w') = ErrorLine (Exception ''gh CLI request failed: HTTP 502: Bad Gateway'')"
proof -
  let ?E = "failing_env"
  let ?e = "Exception ''gh CLI request failed: HTTP 502: Bad Gateway''"
  let ?q = "graphql_invocation ?E items_query"
  define w1 where
    "w1 = \<lparr>history = [([''gh'', ''auth'', ''status''], None)], files = Map.empty,
           console = [Line ''Using GitHub CLI authentication'']\<rparr>"
  define wf where "wf = print (fetching_line ''conda'' 22) w1"
  define wp where "wp = wf\<lparr>history := history wf @ [?q (variables ''conda'' 22 JNull)]\<rparr>"
  define w2 where "w2 = wp\<lparr>history := history wp @ [?q (variables ''conda'' 22 (JStr ''Mg''))]\<rparr>"
  have auth: "verify_gh_auth ?E fresh_world = (Inr (), w1)"
    by (simp add: verify_gh_auth_def subprocess_run_def failing_env_def example_env_def
          scripted_gh_def fresh_world_def print_def w1_def)
  have p1: "make_graphql_request ?E items_query (variables ''conda'' 22 JNull) wf =
              (Inr (page_data [] True (JStr ''Mg'')), wp)"
    unfolding failing_env_def
    by (subst request_example_env [where returncode = 0 and out = first_page_text and err = "[]"])
       (simp_all add: wf_def w1_def wp_def print_def parse_example_pages failing_env_def)
  have p2: "make_graphql_request ?E items_query (variables ''conda'' 22 (JStr ''Mg'')) wp = (Inl ?e, w2)"
    unfolding failing_env_def
    by (subst request_example_env [where returncode = 1 and out = "[]" and err = "''HTTP 502: Bad Gateway''"])
       (simp_all add: wf_def w1_def wp_def w2_def print_def failing_env_def)
  have l: "fetch_fails (make_graphql_request ?E) ''conda'' 22 (JStr ''Mg'') wp ?e w2"
    using p2 by (rule fetch_fails.this_page)
  have r: "read_page (page_data [] True (JStr ''Mg'')) = Inr ([], Some (JStr ''Mg''))"
    by (simp add: read_page_page_data)
  have ff: "fetch_fails (make_graphql_request ?E) ''conda'' 22 JNull
              (print (fetching_line ''conda'' 22) w1) ?e w2"
    unfolding wf_def [symmetric] by (rule fetch_fails.later_page [OF p1 r l])
  from page_failure_aborts_export [OF auth ff]
  have "main ?E fresh_world = Some (1, print (ErrorLine ?e) w2)"
    and "files (print (ErrorLine ?e) w2) = files fresh_world"
    by simp_all
  moreover have "last (console (print (ErrorLine ?e) w2)) = ErrorLine ?e"
    by (simp add: print_def)
  ultimately show ?thesis by (simp add: fresh_world_def)
qed

end
